theory Spec2Isabelle
  imports Complex_Main "HOL-Library.Multiset" "HOL-Library.Product_Lexorder"
    "HOL-Library.Log_Nat"
begin

section \<open>Data model of main.cpp\<close>

text \<open>
  The program recognises the nine stickers of a photographed cube face. Everything that
  OpenCV computes (colour conversion, thresholding, contour extraction, areas, moments,
  rasterisation) is outside the repository; the embedding starts from the values those
  calls hand to the program's own code.

  Numbers: \<^verbatim>\<open>int\<close> values are \<^typ>\<open>int\<close>; all integers the program computes are far below
  the 32-bit range. The values OpenCV returns as \<^verbatim>\<open>double\<close> (areas, moments) are finite and
  are given as the \<^typ>\<open>real\<close> number they denote. The \<^verbatim>\<open>float\<close> and \<^verbatim>\<open>double\<close> values the
  program computes itself are IEEE 754 values, with rounding, infinities and NaN (next
  section). A \<^verbatim>\<open>Scalar\<close> is reduced to the three channels the program sets.
\<close>

section \<open>IEEE 754 arithmetic\<close>

text \<open>
  A floating-point value is a finite number, an infinity or NaN. Zero carries no sign: no
  comparison tells the two zeros apart, and the only divisor that can be zero in this
  program, \<^verbatim>\<open>m00\<close>, is an absolute value.
\<close>

datatype fp = Finite real | PInf | NInf | NaN

text \<open>
  The binary exponent of a positive number: the \<open>e\<close> with \<open>2 powi e \<le> x < 2 powi (e + 1)\<close>.
\<close>

definition expo :: "real \<Rightarrow> int" where
  "expo x = (if 1 \<le> x then bitlen \<lfloor>x\<rfloor> - 1 else - bitlen (\<lceil>1 / x\<rceil> - 1))"

text \<open>The nearest integer, a tie going to the even one.\<close>

definition roundEven :: "real \<Rightarrow> int" where
  "roundEven q =
     (let f = \<lfloor>q\<rfloor>; d = q - of_int f
      in if d < 1 / 2 then f else if 1 / 2 < d then f + 1 else if even f then f else f + 1)"

text \<open>The powers of two.\<close>

definition pow2 :: "int \<Rightarrow> real" where
  "pow2 e = 2 powi e"

text \<open>
  Rounding to nearest, ties to even, into the binary format with \<open>p\<close> significant bits and
  exponents from \<open>emin\<close> to \<open>emax\<close>: the number is rounded to a multiple of the unit in the
  last place of its binade (of the lowest binade for subnormal numbers), and a result beyond
  the largest finite value becomes an infinity.
\<close>

definition fround :: "int \<Rightarrow> int \<Rightarrow> int \<Rightarrow> real \<Rightarrow> fp" where
  "fround p emin emax x =
     (if x = 0 then Finite 0
      else
        let e = max (expo \<bar>x\<bar>) emin;
            ulp = pow2 (e - p + 1);
            r = of_int (roundEven (x / ulp)) * ulp
        in if \<bar>r\<bar> \<ge> pow2 (emax + 1) then (if 0 < x then PInf else NInf) else Finite r)"

text \<open>binary32 (\<^verbatim>\<open>float\<close>) and binary64 (\<^verbatim>\<open>double\<close>).\<close>

definition toFloat :: "real \<Rightarrow> fp" where
  "toFloat x = fround 24 (- 126) 127 x"

definition toDouble :: "real \<Rightarrow> fp" where
  "toDouble x = fround 53 (- 1022) 1023 x"

text \<open>
  The operations the program uses; \<open>rnd\<close> is the rounding of the format the operation is
  carried out in (every operation rounds to the format of its operands, as on SSE and NEON
  targets). \<^verbatim>\<open><\<close> is false whenever an operand is NaN.
\<close>

fun fp_less :: "fp \<Rightarrow> fp \<Rightarrow> bool" where
  "fp_less (Finite a) (Finite b) = (a < b)"
| "fp_less (Finite a) PInf = True"
| "fp_less NInf (Finite b) = True"
| "fp_less NInf PInf = True"
| "fp_less _ _ = False"

fun fp_neg :: "fp \<Rightarrow> fp" where
  "fp_neg (Finite a) = Finite (- a)"
| "fp_neg PInf = NInf"
| "fp_neg NInf = PInf"
| "fp_neg NaN = NaN"

fun fp_add :: "(real \<Rightarrow> fp) \<Rightarrow> fp \<Rightarrow> fp \<Rightarrow> fp" where
  "fp_add rnd (Finite a) (Finite b) = rnd (a + b)"
| "fp_add rnd NaN _ = NaN"
| "fp_add rnd _ NaN = NaN"
| "fp_add rnd PInf NInf = NaN"
| "fp_add rnd NInf PInf = NaN"
| "fp_add rnd PInf _ = PInf"
| "fp_add rnd _ PInf = PInf"
| "fp_add rnd NInf _ = NInf"
| "fp_add rnd _ NInf = NInf"

definition fp_sub :: "(real \<Rightarrow> fp) \<Rightarrow> fp \<Rightarrow> fp \<Rightarrow> fp" where
  "fp_sub rnd a b = fp_add rnd a (fp_neg b)"

fun fp_div :: "(real \<Rightarrow> fp) \<Rightarrow> fp \<Rightarrow> fp \<Rightarrow> fp" where
  "fp_div rnd (Finite a) (Finite b) =
     (if b = 0 then (if a = 0 then NaN else if 0 < a then PInf else NInf) else rnd (a / b))"
| "fp_div rnd NaN _ = NaN"
| "fp_div rnd _ NaN = NaN"
| "fp_div rnd (Finite a) _ = Finite 0"
| "fp_div rnd PInf (Finite b) = (if b < 0 then NInf else PInf)"
| "fp_div rnd NInf (Finite b) = (if b < 0 then PInf else NInf)"
| "fp_div rnd _ _ = NaN"

text \<open>The conversion of a \<^verbatim>\<open>double\<close> to \<^verbatim>\<open>float\<close>.\<close>

fun narrow :: "fp \<Rightarrow> fp" where
  "narrow (Finite a) = toFloat a"
| "narrow v = v"

section \<open>Structures\<close>

type_synonym Scalar = "int \<times> int \<times> int"

datatype Point = Point int int

datatype Point2f = Point2f (pt_x: fp) (pt_y: fp)

datatype Rect = Rect (rect_x: int) (rect_y: int) (rect_width: int) (rect_height: int)

record ColorRange =
  minVal :: Scalar
  maxVal :: Scalar
  name :: string
  drawColor :: Scalar
  code :: char

record ColorBlock =
  center :: Point2f
  colorName :: string
  colorValue :: Scalar
  boundingBox :: Rect
  row :: int
  col :: int
  area :: real

text \<open>The table the constructor of \<^verbatim>\<open>CubeFaceAnalyzer\<close> fills in (lines 61-68).\<close>

definition colorTable :: "ColorRange list" where
  "colorTable =
    [\<lparr>minVal = (0, 146, 92), maxVal = (94, 187, 155), name = ''Red'',
      drawColor = (0, 0, 255), code = CHR ''R''\<rparr>,
     \<lparr>minVal = (139, 80, 146), maxVal = (255, 111, 255), name = ''Yellow'',
      drawColor = (0, 255, 255), code = CHR ''Y''\<rparr>,
     \<lparr>minVal = (82, 42, 0), maxVal = (177, 101, 169), name = ''Green'',
      drawColor = (0, 255, 0), code = CHR ''G''\<rparr>,
     \<lparr>minVal = (0, 0, 0), maxVal = (255, 255, 94), name = ''Blue'',
      drawColor = (255, 0, 0), code = CHR ''B''\<rparr>,
     \<lparr>minVal = (160, 127, 90), maxVal = (226, 177, 110), name = ''White'',
      drawColor = (255, 255, 255), code = CHR ''W''\<rparr>,
     \<lparr>minVal = (87, 158, 106), maxVal = (163, 255, 172), name = ''Pink'',
      drawColor = (203, 192, 255), code = CHR ''P''\<rparr>]"

section \<open>std::sort on the short ranges of this program\<close>

text \<open>
  \<^verbatim>\<open>std::sort(first, last, comp)\<close> is a library routine. The program only sorts ranges of
  at most nine elements, where the mainstream implementations run a plain insertion sort;
  that is the model: an element is put in front of the first element that is not smaller
  than it, so elements that compare equal keep their input order.
\<close>

fun insert_before :: "('a \<Rightarrow> 'a \<Rightarrow> bool) \<Rightarrow> 'a \<Rightarrow> 'a list \<Rightarrow> 'a list" where
  "insert_before lt v [] = [v]"
| "insert_before lt v (w # ws) =
     (if lt w v then w # insert_before lt v ws else v # w # ws)"

fun std_sort :: "('a \<Rightarrow> 'a \<Rightarrow> bool) \<Rightarrow> 'a list \<Rightarrow> 'a list" where
  "std_sort lt [] = []"
| "std_sort lt (v # vs) = insert_before lt v (std_sort lt vs)"

section \<open>CubeFaceAnalyzer::analyzeCubeFace: the contour loop\<close>

text \<open>
  For one contour the program uses three values that OpenCV computes from it:
  \<^verbatim>\<open>contourArea(contours[i])\<close>, \<^verbatim>\<open>moments(contours[i])\<close> (of which it reads \<^verbatim>\<open>m00\<close>,
  \<^verbatim>\<open>m10\<close>, \<^verbatim>\<open>m01\<close>) and \<^verbatim>\<open>boundingRect(approx)\<close>. A contour is modelled by these three.
\<close>

record Moments =
  m00 :: real
  m10 :: real
  m01 :: real

record Contour =
  contourArea :: real
  moments :: Moments
  boundingRect :: Rect

datatype error = OutOfRange

text \<open>Line 131: \<^verbatim>\<open>if (area < 15000 || area > 150000) continue;\<close>\<close>

definition areaRejected :: "real \<Rightarrow> bool" where
  "areaRejected a = (a < 15000 \<or> a > 150000)"

text \<open>
  Lines 144-145: \<^verbatim>\<open>Point2f center(m.m10 / m.m00, m.m01 / m.m00);\<close> Two divisions of
  \<^verbatim>\<open>double\<close> values, each converted to \<^verbatim>\<open>float\<close>. The source does not look at \<^verbatim>\<open>m.m00\<close>:
  a zero divisor gives an infinity or NaN.
\<close>

definition centerOf :: "Moments \<Rightarrow> Point2f" where
  "centerOf m =
     Point2f (narrow (fp_div toDouble (Finite (m10 m)) (Finite (m00 m))))
             (narrow (fp_div toDouble (Finite (m01 m)) (Finite (m00 m))))"

text \<open>
  Lines 143-153: the block for contour \<open>k\<close> of colour \<open>c\<close>. \<^verbatim>\<open>ColorBlock block;\<close> leaves the
  \<^verbatim>\<open>int\<close> members \<^verbatim>\<open>row\<close> and \<^verbatim>\<open>col\<close> uninitialised and the loop never writes them; \<open>u\<close> is
  the pair of values they happen to hold.
\<close>

definition makeBlock :: "int \<times> int \<Rightarrow> ColorRange \<Rightarrow> Contour \<Rightarrow> ColorBlock" where
  "makeBlock u c k =
     \<lparr>center = centerOf (moments k), colorName = name c, colorValue = drawColor c,
      boundingBox = boundingRect k, row = fst u, col = snd u, area = contourArea k\<rparr>"

text \<open>
  Lines 129-169, the loop over the contours of one colour \<open>c\<close>. Drawing onto
  \<^verbatim>\<open>outputImg\<close> does not influence the returned blocks and is left out.
\<close>

fun contourLoop ::
  "int \<times> int \<Rightarrow> ColorRange \<Rightarrow> Contour list \<Rightarrow> ColorBlock list \<Rightarrow> ColorBlock list"
where
  "contourLoop u c [] allBlocks = allBlocks"
| "contourLoop u c (k # ks) allBlocks =
     (if areaRejected (contourArea k) then contourLoop u c ks allBlocks
      else contourLoop u c ks (allBlocks @ [makeBlock u c k]))"

text \<open>
  Lines 117-170, the loop over the colour table. \<open>findContours c\<close> is the list of external
  contours OpenCV extracts from the opened mask of colour range \<open>c\<close>.
\<close>

fun colorLoop ::
  "int \<times> int \<Rightarrow> (ColorRange \<Rightarrow> Contour list) \<Rightarrow> ColorRange list \<Rightarrow> ColorBlock list
    \<Rightarrow> ColorBlock list"
where
  "colorLoop u findContours [] allBlocks = allBlocks"
| "colorLoop u findContours (c # cs) allBlocks =
     colorLoop u findContours cs (contourLoop u c (findContours c) allBlocks)"

text \<open>
  The contour loop as the specification words it: a contour whose zeroth moment is zero is
  skipped before the division. Only used for comparison with the loop of the source.
\<close>

fun guardedContourLoop ::
  "int \<times> int \<Rightarrow> ColorRange \<Rightarrow> Contour list \<Rightarrow> ColorBlock list \<Rightarrow> ColorBlock list"
where
  "guardedContourLoop u c [] allBlocks = allBlocks"
| "guardedContourLoop u c (k # ks) allBlocks =
     (if areaRejected (contourArea k) then guardedContourLoop u c ks allBlocks
      else if m00 (moments k) = 0 then guardedContourLoop u c ks allBlocks
      else guardedContourLoop u c ks (allBlocks @ [makeBlock u c k]))"

section \<open>CubeFaceAnalyzer::assignToGrid\<close>

text \<open>Lines 102-107, the order of the final sort: by row, then by column.\<close>

definition compareColorBlocks :: "ColorBlock \<Rightarrow> ColorBlock \<Rightarrow> bool" where
  "compareColorBlocks a b = (if row a \<noteq> row b then row a < row b else col a < col b)"

text \<open>Lines 188-198: the centroid Y coordinates, sorted ascending with \<^verbatim>\<open><\<close> of \<^verbatim>\<open>float\<close>.\<close>

definition yCoords :: "ColorBlock list \<Rightarrow> fp list" where
  "yCoords blocks = std_sort fp_less (map (\<lambda>block. pt_y (center block)) blocks)"

text \<open>
  Lines 201-202, in \<^verbatim>\<open>float\<close> arithmetic: a subtraction, a division by 2 (the \<^verbatim>\<open>int\<close> 2
  converted to \<^verbatim>\<open>float\<close>) and an addition, each rounded to binary32.
\<close>

definition rowThreshold1 :: "fp list \<Rightarrow> fp" where
  "rowThreshold1 ys =
     fp_add toFloat (ys ! 2) (fp_div toFloat (fp_sub toFloat (ys ! 3) (ys ! 2)) (Finite 2))"

definition rowThreshold2 :: "fp list \<Rightarrow> fp" where
  "rowThreshold2 ys =
     fp_add toFloat (ys ! 5) (fp_div toFloat (fp_sub toFloat (ys ! 6) (ys ! 5)) (Finite 2))"

text \<open>Lines 205-215, the body of the loop that gives each block its row.\<close>

definition assignRow :: "fp \<Rightarrow> fp \<Rightarrow> ColorBlock \<Rightarrow> ColorBlock" where
  "assignRow t1 t2 block =
     (if fp_less (pt_y (center block)) t1 then block\<lparr>row := 0\<rparr>
      else if fp_less (pt_y (center block)) t2 then block\<lparr>row := 1\<rparr>
      else block\<lparr>row := 2\<rparr>)"

text \<open>
  Lines 218-236. \<^verbatim>\<open>rowBlocks\<close> holds pointers into \<^verbatim>\<open>blocks\<close>; a pointer is modelled by
  the index of the element it points to. The pointers of row \<open>r\<close> are collected in list
  order, sorted by the X coordinate of the block behind them, and the block behind the
  \<open>c\<close>-th pointer gets column \<open>c\<close>.
\<close>

definition rowBlocks :: "int \<Rightarrow> ColorBlock list \<Rightarrow> nat list" where
  "rowBlocks r blocks = filter (\<lambda>i. row (blocks ! i) = r) [0..<length blocks]"

definition sortedRowBlocks :: "int \<Rightarrow> ColorBlock list \<Rightarrow> nat list" where
  "sortedRowBlocks r blocks =
     std_sort (\<lambda>a b. fp_less (pt_x (center (blocks ! a))) (pt_x (center (blocks ! b))))
       (rowBlocks r blocks)"

fun assignCol :: "nat list \<Rightarrow> int \<Rightarrow> ColorBlock list \<Rightarrow> ColorBlock list" where
  "assignCol [] c blocks = blocks"
| "assignCol (p # ps) c blocks = assignCol ps (c + 1) (blocks[p := (blocks ! p)\<lparr>col := c\<rparr>])"

definition assignColumns :: "int \<Rightarrow> ColorBlock list \<Rightarrow> ColorBlock list" where
  "assignColumns r blocks = assignCol (sortedRowBlocks r blocks) 0 blocks"

text \<open>
  Lines 186-240. The function works in place on the vector; the model returns the new
  vector. \<^verbatim>\<open>yCoords[6]\<close> is read without a check, so a vector of fewer than seven
  blocks is an out-of-range read (the only caller passes nine). A sort over coordinates
  that contain NaN has no defined result in C++; the model then returns what the insertion
  sort returns.
\<close>

definition assignToGrid :: "ColorBlock list \<Rightarrow> error + ColorBlock list" where
  "assignToGrid blocks =
     (if length blocks < 7 then Inl OutOfRange
      else
        let ys = yCoords blocks;
            t1 = rowThreshold1 ys;
            t2 = rowThreshold2 ys;
            blocks1 = map (assignRow t1 t2) blocks;
            blocks2 = assignColumns 2 (assignColumns 1 (assignColumns 0 blocks1))
        in Inr (std_sort compareColorBlocks blocks2))"

text \<open>Lines 112-181, with the contour loops above.\<close>

definition analyzeCubeFace ::
  "int \<times> int \<Rightarrow> (ColorRange \<Rightarrow> Contour list) \<Rightarrow> error + ColorBlock list"
where
  "analyzeCubeFace u findContours =
     (let allBlocks = colorLoop u findContours colorTable []
      in if length allBlocks = 9 then assignToGrid allBlocks else Inr allBlocks)"

section \<open>CubeFaceAnalyzer::createColorMatrix\<close>

text \<open>
  Lines 71-73: \<^verbatim>\<open>colorCodes\<close>, the map from colour name to code. Line 250 reads it with
  \<^verbatim>\<open>operator[]\<close>, which gives the value-initialised \<^verbatim>\<open>char\<close> (code 0) for a name that is
  not a key. (It also enters that name with value 0 into the map, which changes no later
  lookup.)
\<close>

definition colorCodes :: "string \<rightharpoonup> char" where
  "colorCodes = fold (\<lambda>c m. m(name c \<mapsto> code c)) colorTable Map.empty"

definition codeOf :: "string \<Rightarrow> char" where
  "codeOf nm = (case colorCodes nm of Some ch \<Rightarrow> ch | None \<Rightarrow> CHR 0x00)"

text \<open>Lines 248-252, the loop body, and lines 245-255.\<close>

definition placeBlock :: "char list list \<Rightarrow> ColorBlock \<Rightarrow> char list list" where
  "placeBlock colorMatrix block =
     (if row block \<ge> 0 \<and> row block < 3 \<and> col block \<ge> 0 \<and> col block < 3
      then colorMatrix[nat (row block) :=
             (colorMatrix ! nat (row block))[nat (col block) := codeOf (colorName block)]]
      else colorMatrix)"

definition createColorMatrix :: "ColorBlock list \<Rightarrow> char list list" where
  "createColorMatrix blocks = foldl placeBlock (replicate 3 (replicate 3 (CHR '' ''))) blocks"

text \<open>Lines 492 and 497 of \<^verbatim>\<open>main\<close>: analysis of one loaded face, then its matrix.\<close>

definition faceMatrix ::
  "int \<times> int \<Rightarrow> (ColorRange \<Rightarrow> Contour list) \<Rightarrow> error + char list list"
where
  "faceMatrix u findContours =
     (case analyzeCubeFace u findContours of
        Inl e \<Rightarrow> Inl e
      | Inr blocks \<Rightarrow> Inr (createColorMatrix blocks))"

text \<open>Lines 271-277.\<close>

definition getColorCodeMap :: "char \<rightharpoonup> Scalar" where
  "getColorCodeMap = fold (\<lambda>c m. m(code c \<mapsto> drawColor c)) colorTable Map.empty"

section \<open>CubeVisualizer::drawStandardFace\<close>

text \<open>
  The pixels of an image are produced by OpenCV. The model keeps what the program decides:
  the size of the canvas, the colour every pixel of the new canvas is set to
  (\<^verbatim>\<open>Mat(rows, cols, CV_8UC3, Scalar(...))\<close>), and the drawing calls made on it, in order,
  with their arguments. \<^verbatim>\<open>FILLED\<close> is the thickness -1.
\<close>

datatype DrawOp =
  RectangleOp Rect Scalar int
| PutTextOp string Point real Scalar int

record Mat =
  rows :: int
  cols :: int
  background :: Scalar
  drawn :: "DrawOp list"

record CubeVisualizer =
  blockSize :: int

definition FILLED :: int where
  "FILLED = -1"

text \<open>
  Line 306, \<^verbatim>\<open>colorMatrix[row][col]\<close>: an unchecked read of a vector of vectors.
  Line 311, \<^verbatim>\<open>colorCodeMap.at(colorCode)\<close>: throws for a key that is absent.
\<close>

definition matrixAt :: "char list list \<Rightarrow> int \<Rightarrow> int \<Rightarrow> error + char" where
  "matrixAt colorMatrix r c =
     (if 0 \<le> r \<and> nat r < length colorMatrix \<and> 0 \<le> c \<and> nat c < length (colorMatrix ! nat r)
      then Inr (colorMatrix ! nat r ! nat c) else Inl OutOfRange)"

definition mapAt :: "(char \<rightharpoonup> Scalar) \<Rightarrow> char \<Rightarrow> error + Scalar" where
  "mapAt colorCodeMap colorCode =
     (case colorCodeMap colorCode of None \<Rightarrow> Inl OutOfRange | Some s \<Rightarrow> Inr s)"

text \<open>Lines 309-312.\<close>

definition blockColorOf :: "(char \<rightharpoonup> Scalar) \<Rightarrow> char \<Rightarrow> error + Scalar" where
  "blockColorOf colorCodeMap colorCode =
     (if colorCodeMap colorCode \<noteq> None then mapAt colorCodeMap colorCode
      else Inr (128, 128, 128))"

text \<open>
  Lines 314-338: the three drawing calls for the cell at (\<open>r\<close>, \<open>c\<close>). The block size is
  60 (line 285) and never negative, so the integer divisions of C++ and \<open>div\<close> agree.
\<close>

definition cellDrawing :: "CubeVisualizer \<Rightarrow> int \<Rightarrow> int \<Rightarrow> int \<Rightarrow> char \<Rightarrow> Scalar \<Rightarrow> DrawOp list"
where
  "cellDrawing v margin r c colorCode blockColor =
     (let x = margin + c * blockSize v;
          y = margin + r * blockSize v
      in [RectangleOp (Rect x y (blockSize v) (blockSize v)) blockColor FILLED,
          RectangleOp (Rect x y (blockSize v) (blockSize v)) (50, 50, 50) 2,
          PutTextOp [colorCode]
            (Point (x + blockSize v div 3) (y + 2 * blockSize v div 3))
            (7 / 10) (0, 0, 0) 2])"

text \<open>Lines 306-338, the body of the two nested loops for one cell.\<close>

definition drawCell ::
  "CubeVisualizer \<Rightarrow> char list list \<Rightarrow> (char \<rightharpoonup> Scalar) \<Rightarrow> int \<Rightarrow> int \<Rightarrow> int \<Rightarrow> Mat
    \<Rightarrow> error + Mat"
where
  "drawCell v colorMatrix colorCodeMap margin r c faceImg =
     (case matrixAt colorMatrix r c of
        Inl e \<Rightarrow> Inl e
      | Inr colorCode \<Rightarrow>
          (case blockColorOf colorCodeMap colorCode of
             Inl e \<Rightarrow> Inl e
           | Inr blockColor \<Rightarrow>
               Inr (faceImg\<lparr>drawn := drawn faceImg @
                      cellDrawing v margin r c colorCode blockColor\<rparr>)))"

text \<open>Lines 304-305: the cells in the order the nested loops visit them.\<close>

definition cellOrder :: "(int \<times> int) list" where
  "cellOrder = concat (map (\<lambda>r. map (\<lambda>c. (r, c)) [0, 1, 2]) [0, 1, 2])"

fun drawCells ::
  "CubeVisualizer \<Rightarrow> char list list \<Rightarrow> (char \<rightharpoonup> Scalar) \<Rightarrow> int \<Rightarrow> (int \<times> int) list \<Rightarrow> Mat
    \<Rightarrow> error + Mat"
where
  "drawCells v colorMatrix colorCodeMap margin [] faceImg = Inr faceImg"
| "drawCells v colorMatrix colorCodeMap margin (rc # rest) faceImg =
     (case drawCell v colorMatrix colorCodeMap margin (fst rc) (snd rc) faceImg of
        Inl e \<Rightarrow> Inl e
      | Inr faceImg' \<Rightarrow> drawCells v colorMatrix colorCodeMap margin rest faceImg')"

text \<open>
  Lines 291-354. The method is not \<^verbatim>\<open>const\<close>; the model returns the visualizer object
  next to the image, as the call leaves it.
\<close>

definition drawStandardFace ::
  "CubeVisualizer \<Rightarrow> char list list \<Rightarrow> (char \<rightharpoonup> Scalar) \<Rightarrow> string
    \<Rightarrow> (error + Mat) \<times> CubeVisualizer"
where
  "drawStandardFace v colorMatrix colorCodeMap faceName =
     (let margin = 10;
          labelHeight = (if faceName = [] then 0 else 25);
          faceImg = \<lparr>rows = blockSize v * 3 + margin * 2 + labelHeight,
                     cols = blockSize v * 3 + margin * 2,
                     background = (240, 240, 240), drawn = []\<rparr>
      in case drawCells v colorMatrix colorCodeMap margin cellOrder faceImg of
           Inl e \<Rightarrow> (Inl e, v)
         | Inr img \<Rightarrow>
             (Inr (if faceName \<noteq> []
                   then img\<lparr>drawn := drawn img @
                          [PutTextOp faceName (Point margin (rows img - margin div 2))
                             (6 / 10) (0, 0, 0) 2]\<rparr>
                   else img), v))"

text \<open>Line 285: the visualizer \<^verbatim>\<open>main\<close> creates.\<close>

definition visualizer :: CubeVisualizer where
  "visualizer = \<lparr>blockSize = 60\<rparr>"

section \<open>main: collecting and reordering the face matrices\<close>

text \<open>
  Lines 481-538. \<open>imgs\<close> holds, per file in the order Front, Back, Left, Right, Up, Down,
  the loaded image or \<open>None\<close> when \<^verbatim>\<open>img.empty()\<close>; \<open>matrixOf\<close> stands for steps 3 and 4
  (analysis and matrix creation) on a loaded image.
\<close>

fun faceLoop :: "('img \<Rightarrow> char list list) \<Rightarrow> 'img option list \<Rightarrow> char list list list
    \<Rightarrow> char list list list"
where
  "faceLoop matrixOf [] allColorMatrices = allColorMatrices"
| "faceLoop matrixOf (None # imgs) allColorMatrices = faceLoop matrixOf imgs allColorMatrices"
| "faceLoop matrixOf (Some img # imgs) allColorMatrices =
     faceLoop matrixOf imgs (allColorMatrices @ [matrixOf img])"

text \<open>Lines 548-554.\<close>

definition order :: "nat list" where
  "order = [4, 2, 0, 3, 1, 5]"

definition reorderedMatrices :: "char list list list \<Rightarrow> char list list list" where
  "reorderedMatrices allColorMatrices =
     map (\<lambda>idx. allColorMatrices ! idx) (filter (\<lambda>idx. idx < length allColorMatrices) order)"

text \<open>
  Lines 541-556: the list handed to \<^verbatim>\<open>drawCubeNet\<close>, or \<open>None\<close> when no face was loaded and
  the renderer is not called.
\<close>

definition netInput :: "('img \<Rightarrow> char list list) \<Rightarrow> 'img option list \<Rightarrow> char list list list option"
where
  "netInput matrixOf imgs =
     (let allColorMatrices = faceLoop matrixOf imgs []
      in if length allColorMatrices \<ge> 1 then Some (reorderedMatrices allColorMatrices)
         else None)"

section \<open>Notions used to state the results\<close>

subsection \<open>Finite coordinates\<close>

text \<open>
  A value that is neither an infinity nor NaN, the number it denotes, and a block whose
  centroid has two such coordinates.
\<close>

fun isFinite :: "fp \<Rightarrow> bool" where
  "isFinite (Finite a) = True"
| "isFinite _ = False"

fun val :: "fp \<Rightarrow> real" where
  "val (Finite a) = a"
| "val _ = 0"

definition finiteCenter :: "ColorBlock \<Rightarrow> bool" where
  "finiteCenter b = (isFinite (pt_x (center b)) \<and> isFinite (pt_y (center b)))"

subsection \<open>Grid assignment\<close>

text \<open>The position of an element in a list (0 for an element that does not occur).\<close>

fun index_of :: "'a list \<Rightarrow> 'a \<Rightarrow> nat" where
  "index_of [] a = 0"
| "index_of (x # xs) a = (if x = a then 0 else Suc (index_of xs a))"

text \<open>
  The column the column loop gives the block at index \<open>i\<close>: its position among the sorted
  pointers of its row.
\<close>

definition colPos :: "ColorBlock list \<Rightarrow> nat \<Rightarrow> nat" where
  "colPos bs i = index_of (sortedRowBlocks (row (bs ! i)) bs) i"

text \<open>The vector after the row loop, and after the three passes of the column loop.\<close>

definition withRows :: "ColorBlock list \<Rightarrow> ColorBlock list" where
  "withRows blocks =
     map (assignRow (rowThreshold1 (yCoords blocks)) (rowThreshold2 (yCoords blocks))) blocks"

definition withCols :: "ColorBlock list \<Rightarrow> ColorBlock list" where
  "withCols bs = map (\<lambda>i. (bs ! i)\<lparr>col := int (colPos bs i)\<rparr>) [0..<length bs]"

text \<open>The grid position of a block, and a block with its grid position wiped.\<close>

definition gridKey :: "ColorBlock \<Rightarrow> int \<times> int" where
  "gridKey b = (row b, col b)"

definition unlabelled :: "ColorBlock \<Rightarrow> ColorBlock" where
  "unlabelled b = b\<lparr>row := 0, col := 0\<rparr>"

text \<open>The nine positions of a 3x3 grid in row-major order.\<close>

definition gridPositions :: "(int \<times> int) list" where
  "gridPositions = [(0, 0), (0, 1), (0, 2), (1, 0), (1, 1), (1, 2), (2, 0), (2, 1), (2, 2)]"

text \<open>
  The number of blocks of the same row that lie strictly to the left of \<open>b\<close>; the row band
  the thresholds of \<open>blocks\<close> put \<open>b\<close> in; a list in which no two entries lie in the same
  row band with the same centroid X; and a list of which the thresholds put exactly three
  entries into each of the three row bands.
\<close>

definition xRank :: "ColorBlock list \<Rightarrow> ColorBlock \<Rightarrow> nat" where
  "xRank bs b =
     length (filter (\<lambda>b'. row b' = row b \<and> fp_less (pt_x (center b')) (pt_x (center b))) bs)"

definition bandOf :: "ColorBlock list \<Rightarrow> ColorBlock \<Rightarrow> int" where
  "bandOf blocks b =
     row (assignRow (rowThreshold1 (yCoords blocks)) (rowThreshold2 (yCoords blocks)) b)"

definition tieFree :: "ColorBlock list \<Rightarrow> bool" where
  "tieFree blocks = distinct (map (\<lambda>b. (bandOf blocks b, pt_x (center b))) blocks)"

definition threePerBand :: "ColorBlock list \<Rightarrow> bool" where
  "threePerBand blocks =
     (length (filter (\<lambda>b. bandOf blocks b = 0) blocks) = 3
      \<and> length (filter (\<lambda>b. bandOf blocks b = 1) blocks) = 3
      \<and> length (filter (\<lambda>b. bandOf blocks b = 2) blocks) = 3)"




subsection \<open>Colour matrix and rendering\<close>

text \<open>The blank and the six codes of the colour table.\<close>

definition codeAlphabet :: "char set" where
  "codeAlphabet = {CHR '' '', CHR ''R'', CHR ''Y'', CHR ''G'', CHR ''B'', CHR ''W'', CHR ''P''}"

text \<open>A 3x3 matrix all of whose cells lie in \<open>S\<close>.\<close>

definition wellFormed :: "char set \<Rightarrow> char list list \<Rightarrow> bool" where
  "wellFormed S m = (length m = 3 \<and> (\<forall>r \<in> set m. length r = 3 \<and> set r \<subseteq> S))"

definition blankMatrix :: "char list list" where
  "blankMatrix = replicate 3 (replicate 3 (CHR '' ''))"

definition uniformFace :: "char \<Rightarrow> char list list" where
  "uniformFace ch = replicate 3 (replicate 3 ch)"

text \<open>The drawing calls that fill a rectangle.\<close>

fun isFill :: "DrawOp \<Rightarrow> bool" where
  "isFill (RectangleOp r s t) = (t = FILLED)"
| "isFill (PutTextOp txt org scale s t) = False"

section \<open>Concrete inputs\<close>

text \<open>
  A contour of a sticker about 141 pixels wide: area 20000, centroid (\<open>cx\<close>, \<open>cy\<close>), with
  the zeroth moment equal to the area as OpenCV computes both from the same polygon.
\<close>

definition sticker :: "int \<Rightarrow> int \<Rightarrow> Contour" where
  "sticker cx cy =
     \<lparr>contourArea = 20000,
      moments = \<lparr>m00 = 20000, m10 = 20000 * of_int cx, m01 = 20000 * of_int cy\<rparr>,
      boundingRect = Rect (cx - 70) (cy - 70) 141 141\<rparr>"

text \<open>A face on which only eight regions qualify, all in the red range.\<close>

definition eightStickers :: "ColorRange \<Rightarrow> Contour list" where
  "eightStickers c =
     (if name c = ''Red''
      then [sticker 100 100, sticker 300 100, sticker 500 100,
            sticker 100 300, sticker 300 300, sticker 500 300,
            sticker 100 500, sticker 300 500]
      else [])"

text \<open>
  A contour record with an area inside the filter band and a zero zeroth moment (OpenCV
  returns no such pair for one contour).
\<close>

definition degenerateContour :: Contour where
  "degenerateContour =
     \<lparr>contourArea = 20000, moments = \<lparr>m00 = 0, m10 = 0, m01 = 0\<rparr>,
      boundingRect = Rect 0 0 141 141\<rparr>"


text \<open>A block as the contour loop delivers it, with centroid (\<open>cx\<close>, \<open>cy\<close>).\<close>

definition detected :: "string \<Rightarrow> real \<Rightarrow> real \<Rightarrow> ColorBlock" where
  "detected nm cx cy =
     \<lparr>center = Point2f (Finite cx) (Finite cy), colorName = nm, colorValue = (0, 0, 0),
      boundingBox = Rect 0 0 141 141, row = 0, col = 0, area = 20000\<rparr>"



text \<open>A slightly tilted face, in no particular order.\<close>

definition tiltedFace :: "ColorBlock list" where
  "tiltedFace =
     [detected ''White'' 310 305, detected ''Red'' 96 110, detected ''Blue'' 520 496,
      detected ''Green'' 104 512, detected ''Yellow'' 300 102, detected ''Pink'' 508 298,
      detected ''Red'' 312 505, detected ''Green'' 504 95, detected ''Blue'' 100 310]"

text \<open>
  Nine regions from eight stickers: the sticker at (100, 100) is found in two colour ranges
  and the sticker at (500, 500) in none.
\<close>

definition doubledFace :: "ColorBlock list" where
  "doubledFace =
     [detected ''Yellow'' 100 100, detected ''Yellow'' 300 100, detected ''Yellow'' 500 100,
      detected ''Green'' 100 300, detected ''Green'' 300 300, detected ''Green'' 500 300,
      detected ''Blue'' 100 500, detected ''Blue'' 300 500, detected ''White'' 100 100]"

text \<open>
  Two orders of the same nine regions; the first two regions lie in the top row band with
  the same centroid X.
\<close>

definition tieA :: "ColorBlock list" where
  "tieA =
     [detected ''Red'' 100 100, detected ''Blue'' 100 104, detected ''Green'' 300 100,
      detected ''Blue'' 100 300, detected ''White'' 300 300, detected ''Pink'' 500 300,
      detected ''Red'' 100 500, detected ''Green'' 300 500, detected ''Blue'' 500 500]"

definition tieB :: "ColorBlock list" where
  "tieB =
     [detected ''Blue'' 100 104, detected ''Red'' 100 100, detected ''Green'' 300 100,
      detected ''Blue'' 100 300, detected ''White'' 300 300, detected ''Pink'' 500 300,
      detected ''Red'' 100 500, detected ''Green'' 300 500, detected ''Blue'' 500 500]"

text \<open>
  Nine regions with pairwise different centroid X, one of them with a centroid Y that is
  NaN.
\<close>

definition nanFace :: "ColorBlock list" where
  "nanFace =
     [(detected ''Red'' 100 100)\<lparr>center := Point2f (Finite 100) NaN\<rparr>,
      detected ''Yellow'' 200 100, detected ''Green'' 300 110,
      detected ''Blue'' 400 120, detected ''White'' 500 300, detected ''Pink'' 600 310,
      detected ''Red'' 700 320, detected ''Green'' 800 500, detected ''Blue'' 900 510]"

text \<open>Four blocks, two of them with a grid position outside the 3x3 grid.\<close>

definition strayBlocks :: "ColorBlock list" where
  "strayBlocks =
     [(detected ''Red'' 100 100)\<lparr>row := 0, col := 0\<rparr>,
      (detected ''Blue'' 300 100)\<lparr>row := 0, col := 7\<rparr>,
      (detected ''Pink'' 300 300)\<lparr>row := - 1, col := 1\<rparr>,
      (detected ''White'' 500 500)\<lparr>row := 2, col := 2\<rparr>]"

section \<open>Rounding\<close>

lemma pow2_code [code]:
  "pow2 e =
     (if e < 0 then inverse (pow2 (- e))
      else if e = 0 then 1
      else let h = pow2 (e div 2) in if even e then h * h else 2 * h * h)"
proof -
  have neg: "pow2 e = inverse (pow2 (- e))"
    by (simp add: pow2_def power_int_minus)
  have add: "(2::real) powi (m + n) = 2 powi m * 2 powi n" for m n :: int
    by (rule power_int_add) simp
  have dbl: "pow2 e = pow2 (e div 2) * pow2 (e div 2)" if "even e"
  proof -
    have "e = e div 2 + e div 2" using that by presburger
    then have "pow2 e = 2 powi (e div 2 + e div 2)" unfolding pow2_def by (rule arg_cong)
    then show ?thesis unfolding pow2_def add .
  qed
  have odd: "pow2 e = 2 * pow2 (e div 2) * pow2 (e div 2)" if "odd e"
  proof -
    have "e = 1 + (e div 2 + e div 2)" using that by presburger
    then have "pow2 e = 2 powi (1 + (e div 2 + e div 2))" unfolding pow2_def by (rule arg_cong)
    then show ?thesis unfolding pow2_def add by simp
  qed
  have zero: "pow2 0 = 1" by (simp add: pow2_def)
  show ?thesis
  proof (cases "e < 0")
    case True
    then show ?thesis using neg by simp
  next
    case False
    show ?thesis
    proof (cases "e = 0")
      case True
      then show ?thesis using zero by simp
    next
      case nz: False
      show ?thesis
      proof (cases "even e")
        case True
        then show ?thesis using dbl \<open>\<not> e < 0\<close> nz by (simp add: Let_def)
      next
        case False
        then show ?thesis using odd \<open>\<not> e < 0\<close> nz by (simp add: Let_def)
      qed
    qed
  qed
qed

text \<open>
  The rounding at work: a tie goes to the neighbour with the even significand, a value
  beyond the largest finite number becomes an infinity, and the subnormal numbers are the
  multiples of \<open>2 powi (- 149)\<close>.
\<close>

lemma rounding_examples:
  "toFloat 16777217 = Finite 16777216 \<and> toFloat 16777219 = Finite 16777220
   \<and> toFloat (1 / 10) = Finite (13421773 / 134217728)
   \<and> toDouble (1 / 3) = Finite (6004799503160661 / 18014398509481984)
   \<and> toFloat (2 ^ 128) = PInf \<and> toFloat (- (2 ^ 128)) = NInf
   \<and> toFloat (2 powi (- 150)) = Finite 0
   \<and> toFloat (3 * 2 powi (- 150)) = Finite (2 powi (- 148))"
  by code_simp

lemma of_int_two_power: "of_int ((2::int) ^ n) = (2::real) ^ n"
  by simp

lemma expo_bounds:
  assumes "0 < x"
  shows "2 powi expo x \<le> x \<and> x < 2 powi (expo x + 1)"
proof (cases "1 \<le> x")
  case True
  then have n: "0 < \<lfloor>x\<rfloor>" by simp
  let ?b = "bitlen \<lfloor>x\<rfloor>"
  have b: "2 ^ nat (?b - 1) \<le> \<lfloor>x\<rfloor>" "\<lfloor>x\<rfloor> < 2 ^ nat ?b"
    using bitlen_bounds[OF n] by simp_all
  have b1: "1 \<le> ?b" using n by (simp add: bitlen_alt_def)
  have "of_int ((2::int) ^ nat (?b - 1)) \<le> (of_int \<lfloor>x\<rfloor> :: real)"
    using b(1) by (simp only: of_int_le_iff)
  then have "(2::real) ^ nat (?b - 1) \<le> of_int \<lfloor>x\<rfloor>" by (simp only: of_int_two_power)
  then have lo: "(2::real) ^ nat (?b - 1) \<le> x" by linarith
  have "\<lfloor>x\<rfloor> + 1 \<le> 2 ^ nat ?b" using b(2) by simp
  then have "(of_int (\<lfloor>x\<rfloor> + 1) :: real) \<le> of_int ((2::int) ^ nat ?b)"
    by (simp only: of_int_le_iff)
  then have "(of_int (\<lfloor>x\<rfloor> + 1) :: real) \<le> 2 ^ nat ?b" by (simp only: of_int_two_power)
  then have hi: "x < (2::real) ^ nat ?b" by linarith
  show ?thesis using True lo hi b1 by (simp add: expo_def power_int_def)
next
  case False
  then have x1: "x < 1" by simp
  let ?c = "\<lceil>1 / x\<rceil>"
  have inv: "1 < 1 / x" using assms x1 by simp
  then have c: "2 \<le> ?c" by linarith
  let ?m = "bitlen (?c - 1)"
  have pos: "0 < ?c - 1" using c by simp
  have b: "2 ^ nat (?m - 1) \<le> ?c - 1" "?c - 1 < 2 ^ nat ?m"
    using bitlen_bounds[OF pos] by simp_all
  have m1: "1 \<le> ?m" using pos by (simp add: bitlen_alt_def)
  have "of_int (?c - 1) < 1 / x" by linarith
  moreover have "of_int ((2::int) ^ nat (?m - 1)) \<le> (of_int (?c - 1) :: real)"
    using b(1) by (simp only: of_int_le_iff)
  then have "(2::real) ^ nat (?m - 1) \<le> of_int (?c - 1)" by (simp only: of_int_two_power)
  ultimately have lo: "(2::real) ^ nat (?m - 1) < 1 / x" by linarith
  have "?c \<le> 2 ^ nat ?m" using b(2) by simp
  then have "(of_int ?c :: real) \<le> of_int ((2::int) ^ nat ?m)" by (simp only: of_int_le_iff)
  then have "(of_int ?c :: real) \<le> 2 ^ nat ?m" by (simp only: of_int_two_power)
  then have hi: "1 / x \<le> (2::real) ^ nat ?m" by linarith
  have p: "(0::real) < 2 ^ nat ?m" "(0::real) < 2 ^ nat (?m - 1)" by simp_all
  have A: "inverse ((2::real) ^ nat ?m) \<le> x"
    using hi assms p by (simp add: field_simps)
  have B: "x < inverse ((2::real) ^ nat (?m - 1))"
    using lo assms p by (simp add: field_simps)
  have e: "expo x = - ?m" using False by (simp add: expo_def)
  have "(2::real) powi (- ?m) = inverse (2 ^ nat ?m)"
    using m1 by (simp add: power_int_def power_divide inverse_eq_divide)
  moreover have "(2::real) powi (- ?m + 1) = inverse (2 ^ nat (?m - 1))"
    using m1 by (cases "?m = 1")
      (auto simp: power_int_def power_divide inverse_eq_divide nat_diff_distrib)
  ultimately show ?thesis using A B e by simp
qed

lemma fp_less_finite: "isFinite a \<Longrightarrow> isFinite b \<Longrightarrow> fp_less a b = (val a < val b)"
  by (cases a; cases b) simp_all


lemma isFinite_val: "isFinite a \<Longrightarrow> Finite (val a) = a"
  by (cases a) simp_all

lemma val_inj: "isFinite a \<Longrightarrow> isFinite b \<Longrightarrow> val a = val b \<Longrightarrow> a = b"
  by (cases a; cases b) simp_all

section \<open>The area filter and the centroid\<close>

lemma contourLoop_append:
  "contourLoop u c ks acc =
    acc @ map (makeBlock u c) (filter (\<lambda>k. \<not> areaRejected (contourArea k)) ks)"
  by (induction ks arbitrary: acc) simp_all

text \<open>
  Claim C6. The area filter lets a contour through exactly when its area lies in the closed
  interval from 15000 to 150000: the loop over a single contour leaves the block list as it
  was (the contour is rejected) exactly when the area is below 15000 or above 150000, and
  the two boundary areas 15000 and 150000 are let through.
\<close>

theorem area_filter_inclusive:
  "(contourLoop u c [k] acc = acc) = (\<not> (15000 \<le> contourArea k \<and> contourArea k \<le> 150000))
   \<and> areaRejected a = (\<not> (15000 \<le> a \<and> a \<le> 150000))
   \<and> \<not> areaRejected 15000 \<and> \<not> areaRejected 150000
   \<and> areaRejected 14999 \<and> areaRejected 150001"
proof -
  have "(contourLoop u c [k] acc = acc) = areaRejected (contourArea k)"
    by simp
  then show ?thesis
    by (auto simp: areaRejected_def)
qed




text \<open>
  The link between \<^verbatim>\<open>m00\<close> and the area cannot be dropped. For a record with area 20000 and
  \<^verbatim>\<open>m00 = 0\<close>, which OpenCV returns for no contour, line 145 divides 0.0 by 0.0 and the
  block is appended with the centre (NaN, NaN), where the guarded loop appends nothing.
\<close>

lemma unguarded_division:
  "\<not> areaRejected (contourArea degenerateContour) \<and> m00 (moments degenerateContour) = 0
   \<and> map center (contourLoop (0, 0) (hd colorTable) [degenerateContour] []) = [Point2f NaN NaN]
   \<and> guardedContourLoop (0, 0) (hd colorTable) [degenerateContour] [] = []"
  by code_simp

section \<open>The colour matrix\<close>

lemma colorCodes_simps:
  "colorCodes = [''Red'' \<mapsto> CHR ''R'', ''Yellow'' \<mapsto> CHR ''Y'', ''Green'' \<mapsto> CHR ''G'',
      ''Blue'' \<mapsto> CHR ''B'', ''White'' \<mapsto> CHR ''W'', ''Pink'' \<mapsto> CHR ''P'']"
  by (simp add: colorCodes_def colorTable_def)

lemma codeOf_calibrated:
  "nm \<in> name ` set colorTable \<Longrightarrow> codeOf nm \<in> codeAlphabet"
  by (auto simp: codeOf_def colorCodes_simps colorTable_def codeAlphabet_def)

lemma placeBlock_wellFormed:
  assumes "wellFormed S m" "codeOf (colorName b) \<in> S"
  shows "wellFormed S (placeBlock m b)"
proof (cases "row b \<ge> 0 \<and> row b < 3 \<and> col b \<ge> 0 \<and> col b < 3")
  case False
  then have "placeBlock m b = m" unfolding placeBlock_def by auto
  then show ?thesis using assms by simp
next
  case True
  let ?r = "nat (row b)"
  have "?r < 3" using True by arith
  then have r: "?r < length m" using assms(1) by (simp add: wellFormed_def)
  have old: "length (m ! ?r) = 3 \<and> set (m ! ?r) \<subseteq> S"
    using r assms(1) by (simp add: wellFormed_def)
  have new: "length ((m ! ?r)[nat (col b) := codeOf (colorName b)]) = 3
      \<and> set ((m ! ?r)[nat (col b) := codeOf (colorName b)]) \<subseteq> S"
    using old assms(2) set_update_subset_insert[of "m ! ?r" "nat (col b)" "codeOf (colorName b)"]
    by auto
  have "\<forall>x \<in> set (m[?r := (m ! ?r)[nat (col b) := codeOf (colorName b)]]). length x = 3 \<and> set x \<subseteq> S"
  proof
    fix x assume "x \<in> set (m[?r := (m ! ?r)[nat (col b) := codeOf (colorName b)]])"
    then have "x = (m ! ?r)[nat (col b) := codeOf (colorName b)] \<or> x \<in> set m"
      using set_update_subset_insert[of m ?r] by auto
    then show "length x = 3 \<and> set x \<subseteq> S"
      using new assms(1) by (auto simp: wellFormed_def)
  qed
  then show ?thesis using True assms(1) by (simp add: placeBlock_def wellFormed_def)
qed

lemma foldl_placeBlock_wellFormed:
  "wellFormed S m \<Longrightarrow> \<forall>b \<in> set blocks. codeOf (colorName b) \<in> S
    \<Longrightarrow> wellFormed S (foldl placeBlock m blocks)"
  by (induction blocks arbitrary: m) (simp_all add: placeBlock_wellFormed)

lemma foldl_placeBlock_filter:
  "foldl placeBlock m (filter (\<lambda>b. row b \<ge> 0 \<and> row b < 3 \<and> col b \<ge> 0 \<and> col b < 3) blocks)
     = foldl placeBlock m blocks"
  by (induction blocks arbitrary: m) (simp_all add: placeBlock_def)

text \<open>
  Claim C10. For blocks whose colour names are among the six names of the colour table,
  \<^verbatim>\<open>createColorMatrix\<close> returns three rows of three cells, every cell the blank or one of the
  codes R, Y, G, B, W, P; and the blocks whose row or column lies outside 0..2 contribute
  nothing: the matrix is the one built from the remaining blocks alone.
\<close>

theorem createColorMatrix_cells:
  assumes "\<forall>b \<in> set blocks. colorName b \<in> name ` set colorTable"
  shows "length (createColorMatrix blocks) = 3
    \<and> (\<forall>r \<in> set (createColorMatrix blocks). length r = 3 \<and> set r \<subseteq> codeAlphabet)
    \<and> createColorMatrix blocks =
        createColorMatrix (filter (\<lambda>b. row b \<ge> 0 \<and> row b < 3 \<and> col b \<ge> 0 \<and> col b < 3) blocks)"
proof -
  have "wellFormed codeAlphabet (replicate 3 (replicate 3 (CHR '' '')))"
    by (simp add: wellFormed_def codeAlphabet_def)
  then have "wellFormed codeAlphabet (createColorMatrix blocks)"
    unfolding createColorMatrix_def using assms
    by (intro foldl_placeBlock_wellFormed) (auto simp: codeOf_calibrated)
  then show ?thesis
    by (simp add: wellFormed_def createColorMatrix_def foldl_placeBlock_filter)
qed

text \<open>
  Witness for C10: of four blocks, the two placed at (0, 7) and (-1, 1) leave no trace.
\<close>

theorem createColorMatrix_cells_witness:
  "colorName (strayBlocks ! 0) \<in> name ` set colorTable
   \<and> colorName (strayBlocks ! 1) \<in> name ` set colorTable
   \<and> colorName (strayBlocks ! 2) \<in> name ` set colorTable
   \<and> colorName (strayBlocks ! 3) \<in> name ` set colorTable
   \<and> length strayBlocks = 4
   \<and> createColorMatrix strayBlocks = [''R  '', ''   '', ''  W'']
   \<and> createColorMatrix strayBlocks =
       createColorMatrix (filter (\<lambda>b. row b \<ge> 0 \<and> row b < 3 \<and> col b \<ge> 0 \<and> col b < 3) strayBlocks)"
proof -
  have names: "\<forall>b \<in> set strayBlocks. colorName b \<in> name ` set colorTable"
    by (simp add: strayBlocks_def detected_def colorTable_def)
  have val: "createColorMatrix strayBlocks = [''R  '', ''   '', ''  W'']"
    by code_simp
  show ?thesis
    using createColorMatrix_cells[OF names] names val
    by (simp add: strayBlocks_def)
qed

section \<open>Sorting\<close>

lemma mset_insert_before: "mset (insert_before lt v ws) = add_mset v (mset ws)"
  by (induction ws) simp_all

lemma mset_std_sort: "mset (std_sort lt xs) = mset xs"
  by (induction xs) (simp_all add: mset_insert_before)

lemma set_std_sort: "set (std_sort lt xs) = set xs"
  by (metis mset_std_sort set_mset_mset)

lemma length_std_sort: "length (std_sort lt xs) = length xs"
  by (metis mset_std_sort size_mset)

lemma distinct_std_sort: "distinct (std_sort lt xs) = distinct xs"
  by (metis mset_std_sort mset_eq_imp_distinct_iff)

lemma insert_before_cong:
  "(\<And>w. w \<in> set ws \<Longrightarrow> lt w v = lt' w v) \<Longrightarrow> insert_before lt v ws = insert_before lt' v ws"
  by (induction ws) simp_all

lemma std_sort_cong:
  "(\<And>a b. a \<in> set xs \<Longrightarrow> b \<in> set xs \<Longrightarrow> lt a b = lt' a b)
    \<Longrightarrow> std_sort lt xs = std_sort lt' xs"
proof (induction xs)
  case Nil
  then show ?case by simp
next
  case (Cons x xs)
  have "std_sort lt xs = std_sort lt' xs" using Cons by simp
  moreover have "insert_before lt x (std_sort lt' xs) = insert_before lt' x (std_sort lt' xs)"
    by (rule insert_before_cong) (use Cons.prems in \<open>simp add: set_std_sort\<close>)
  ultimately show ?case by simp
qed

lemma insert_before_key:
  "insert_before (\<lambda>a b. k a < k b) v ws = insort_key k v ws" for k :: "'a \<Rightarrow> 'b::linorder"
  by (induction ws) auto

lemma std_sort_key:
  "std_sort (\<lambda>a b. k a < k b) xs = sort_key k xs" for k :: "'a \<Rightarrow> 'b::linorder"
  by (induction xs) (simp_all add: insert_before_key)

lemma compareColorBlocks_key:
  "compareColorBlocks = (\<lambda>a b. (row a, col a) < (row b, col b))"
  by (auto simp: compareColorBlocks_def less_prod_def fun_eq_iff)

lemma std_sort_compare:
  "std_sort compareColorBlocks bs = sort_key (\<lambda>b. (row b, col b)) bs"
  unfolding compareColorBlocks_key by (rule std_sort_key)

lemma std_sort_fp:
  assumes "\<And>x. x \<in> set xs \<Longrightarrow> isFinite (k x)"
  shows "std_sort (\<lambda>a b. fp_less (k a) (k b)) xs = sort_key (\<lambda>x. val (k x)) xs"
proof -
  have "std_sort (\<lambda>a b. fp_less (k a) (k b)) xs = std_sort (\<lambda>a b. val (k a) < val (k b)) xs"
    by (rule std_sort_cong) (simp add: assms fp_less_finite)
  then show ?thesis by (simp add: std_sort_key)
qed

lemma insort_key_val:
  "insort_key val (Finite z) (map Finite ws) = map Finite (insort z ws)"
  by (induction ws) simp_all

lemma sort_key_val: "sort_key val (map Finite zs) = map Finite (sort zs)"
  by (induction zs) (simp_all add: insort_key_val)

lemma sort_mset_cong: "mset xs = mset ys \<Longrightarrow> sort xs = sort ys" for xs :: "'a::linorder list"
  by (metis mset_sort properties_for_sort sorted_sort)

lemma sort_key_unique:
  fixes k :: "'a \<Rightarrow> 'b::linorder"
  assumes "mset xs = mset ys" "distinct (map k xs)"
  shows "sort_key k xs = sort_key k ys"
proof -
  have "mset (map k xs) = mset (map k ys)" using assms(1) by (metis mset_map)
  then have "sort (map k xs) = sort (map k ys)" by (rule sort_mset_cong)
  moreover have "map k (sort_key k zs) = sort (map k zs)" for zs
    by (rule properties_for_sort[symmetric]) (simp_all add: sorted_sort_key)
  ultimately have "map k (sort_key k xs) = map k (sort_key k ys)" by simp
  moreover have "inj_on k (set (sort_key k xs) \<union> set (sort_key k ys))"
    using assms by (metis distinct_map mset_eq_setD set_sort sup.idem)
  ultimately show ?thesis by (simp add: inj_on_map_eq_map)
qed

lemma length_filter_mset_cong:
  "mset xs = mset ys \<Longrightarrow> length (filter P xs) = length (filter P ys)"
  by (metis mset_filter size_mset)

lemma count_smaller_strict_sorted:
  fixes zs :: "'a::linorder list"
  assumes "sorted_wrt (<) zs" "m < length zs"
  shows "length (filter (\<lambda>z. z < zs ! m) zs) = m"
  using assms
proof (induction zs arbitrary: m)
  case Nil
  then show ?case by simp
next
  case (Cons z zs)
  have above: "\<forall>w \<in> set zs. z < w" and rest: "sorted_wrt (<) zs" using Cons.prems(1) by simp_all
  show ?case
  proof (cases m)
    case 0
    have "filter (\<lambda>w. w < z) zs = []" using above by (auto simp: filter_empty_conv)
    then show ?thesis using 0 by simp
  next
    case (Suc m')
    then have m': "m' < length zs" using Cons.prems(2) by simp
    then have "z < zs ! m'" using above by simp
    then show ?thesis using Suc Cons.IH[OF rest m'] by simp
  qed
qed

lemma yCoords_finite:
  assumes "\<forall>b \<in> set blocks. finiteCenter b"
  shows "yCoords blocks = map Finite (sort (map (\<lambda>b. val (pt_y (center b))) blocks))"
proof -
  let ?ys = "map (\<lambda>b. pt_y (center b)) blocks"
  have fin: "\<And>y. y \<in> set ?ys \<Longrightarrow> isFinite y" using assms by (auto simp: finiteCenter_def)
  have "yCoords blocks = sort_key val ?ys"
    unfolding yCoords_def using std_sort_fp[of ?ys "\<lambda>y. y"] fin by simp
  moreover have "?ys = map Finite (map val ?ys)"
    using fin by (simp add: isFinite_val)
  then have "sort_key val ?ys = sort_key val (map Finite (map val ?ys))"
    by (rule arg_cong)
  ultimately have "yCoords blocks = map Finite (sort (map val ?ys))"
    by (simp only: sort_key_val)
  then show ?thesis by (simp add: comp_def)
qed

lemma length_yCoords [simp]: "length (yCoords blocks) = length blocks"
  by (simp add: yCoords_def length_std_sort)

section \<open>Grid assignment\<close>

subsection \<open>The column loop\<close>

lemma index_of_less: "a \<in> set xs \<Longrightarrow> index_of xs a < length xs"
  by (induction xs) auto

lemma nth_index_of: "a \<in> set xs \<Longrightarrow> xs ! index_of xs a = a"
  by (induction xs) auto

lemma index_of_nth: "distinct xs \<Longrightarrow> k < length xs \<Longrightarrow> index_of xs (xs ! k) = k"
proof (induction xs arbitrary: k)
  case Nil
  then show ?case by simp
next
  case (Cons x xs)
  then show ?case by (cases k) auto
qed

lemma index_of_inj:
  "a \<in> set xs \<Longrightarrow> b \<in> set xs \<Longrightarrow> index_of xs a = index_of xs b \<Longrightarrow> a = b"
  by (metis nth_index_of)

lemma length_assignCol [simp]: "length (assignCol ps c bs) = length bs"
  by (induction ps arbitrary: c bs) simp_all

lemma assignCol_nth:
  assumes "distinct ps" "i < length bs"
  shows "assignCol ps c bs ! i =
    (if i \<in> set ps then (bs ! i)\<lparr>col := c + int (index_of ps i)\<rparr> else bs ! i)"
  using assms
proof (induction ps arbitrary: c bs)
  case Nil
  then show ?case by simp
next
  case (Cons p ps)
  let ?bs = "bs[p := (bs ! p)\<lparr>col := c\<rparr>]"
  have d: "distinct ps" and p: "p \<notin> set ps" using Cons.prems by auto
  have i: "i < length ?bs" using Cons.prems by simp
  have step: "assignCol (p # ps) c bs ! i =
      (if i \<in> set ps then (?bs ! i)\<lparr>col := c + 1 + int (index_of ps i)\<rparr> else ?bs ! i)"
    using Cons.IH[OF d i, of "c + 1"] by simp
  show ?case
  proof (cases "i = p")
    case True
    then show ?thesis using step p Cons.prems by simp
  next
    case False
    then show ?thesis using step by auto
  qed
qed

lemma set_sortedRowBlocks:
  "set (sortedRowBlocks r bs) = {i. i < length bs \<and> row (bs ! i) = r}"
  by (auto simp: sortedRowBlocks_def set_std_sort rowBlocks_def)

lemma distinct_sortedRowBlocks: "distinct (sortedRowBlocks r bs)"
  by (simp add: sortedRowBlocks_def distinct_std_sort rowBlocks_def)

lemma length_sortedRowBlocks:
  "length (sortedRowBlocks r bs) = length (filter (\<lambda>b. row b = r) bs)"
proof -
  have "length (sortedRowBlocks r bs) = length (rowBlocks r bs)"
    by (simp add: sortedRowBlocks_def length_std_sort)
  also have "\<dots> = length (filter (\<lambda>b. row b = r) (map (\<lambda>i. bs ! i) [0..<length bs]))"
    by (simp add: rowBlocks_def filter_map comp_def)
  finally show ?thesis by (simp add: map_nth)
qed

lemma length_assignColumns [simp]: "length (assignColumns r bs) = length bs"
  by (simp add: assignColumns_def)

lemma assignColumns_nth:
  assumes "i < length bs"
  shows "assignColumns r bs ! i =
    (if row (bs ! i) = r then (bs ! i)\<lparr>col := int (colPos bs i)\<rparr> else bs ! i)"
proof -
  have "assignCol (sortedRowBlocks r bs) 0 bs ! i =
      (if i \<in> set (sortedRowBlocks r bs)
       then (bs ! i)\<lparr>col := 0 + int (index_of (sortedRowBlocks r bs) i)\<rparr> else bs ! i)"
    using distinct_sortedRowBlocks assms by (rule assignCol_nth)
  then show ?thesis
    using assms by (simp add: assignColumns_def set_sortedRowBlocks colPos_def)
qed

lemma sortedRowBlocks_cong:
  assumes "length bs' = length bs"
    and "\<And>i. i < length bs \<Longrightarrow> row (bs' ! i) = row (bs ! i) \<and> center (bs' ! i) = center (bs ! i)"
  shows "sortedRowBlocks r bs' = sortedRowBlocks r bs"
proof -
  have rb: "rowBlocks r bs' = rowBlocks r bs"
    unfolding rowBlocks_def using assms by (intro filter_cong) auto
  show ?thesis
    unfolding sortedRowBlocks_def rb
    by (rule std_sort_cong) (use assms in \<open>auto simp: rowBlocks_def\<close>)
qed

lemma colPos_cong:
  assumes "length bs' = length bs"
    and "\<And>i. i < length bs \<Longrightarrow> row (bs' ! i) = row (bs ! i) \<and> center (bs' ! i) = center (bs ! i)"
    and "i < length bs"
  shows "colPos bs' i = colPos bs i"
  using assms sortedRowBlocks_cong[OF assms(1,2)] by (simp add: colPos_def)

lemma assignColumns_keeps:
  assumes "i < length bs"
  shows "row (assignColumns r bs ! i) = row (bs ! i) \<and> center (assignColumns r bs ! i) = center (bs ! i)"
  using assignColumns_nth[OF assms] by simp

lemma three_passes_nth:
  assumes "i < length bs" "row (bs ! i) \<in> {0, 1, 2}"
  shows "assignColumns 2 (assignColumns 1 (assignColumns 0 bs)) ! i
    = (bs ! i)\<lparr>col := int (colPos bs i)\<rparr>"
proof -
  let ?b0 = "assignColumns 0 bs" and ?b1 = "assignColumns 1 (assignColumns 0 bs)"
  have k0: "\<And>j. j < length bs \<Longrightarrow> row (?b0 ! j) = row (bs ! j) \<and> center (?b0 ! j) = center (bs ! j)"
    by (rule assignColumns_keeps)
  have k1: "\<And>j. j < length bs \<Longrightarrow> row (?b1 ! j) = row (bs ! j) \<and> center (?b1 ! j) = center (bs ! j)"
    using assignColumns_keeps[where bs = ?b0 and r = 1] k0 by simp
  have c0: "colPos ?b0 i = colPos bs i"
    by (rule colPos_cong) (use k0 assms in auto)
  have c1: "colPos ?b1 i = colPos bs i"
    by (rule colPos_cong) (use k1 assms in auto)
  have n0: "?b0 ! i = (if row (bs ! i) = 0 then (bs ! i)\<lparr>col := int (colPos bs i)\<rparr> else bs ! i)"
    using assignColumns_nth[OF assms(1), of 0] by simp
  have n1: "?b1 ! i = (if row (?b0 ! i) = 1 then (?b0 ! i)\<lparr>col := int (colPos bs i)\<rparr> else ?b0 ! i)"
    using assignColumns_nth[where bs = ?b0 and r = 1 and i = i] assms(1) c0 by simp
  have n2: "assignColumns 2 ?b1 ! i =
      (if row (?b1 ! i) = 2 then (?b1 ! i)\<lparr>col := int (colPos bs i)\<rparr> else ?b1 ! i)"
    using assignColumns_nth[where bs = ?b1 and r = 2 and i = i] assms(1) c1 by simp
  show ?thesis using assms(2) n0 n1 n2 k0[OF assms(1)] k1[OF assms(1)] by auto
qed

subsection \<open>The function as a whole\<close>

lemma row_assignRow: "row (assignRow t1 t2 b) \<in> {0, 1, 2}"
  by (simp add: assignRow_def)

lemma center_assignRow [simp]: "center (assignRow t1 t2 b) = center b"
  by (simp add: assignRow_def)

lemma unlabelled_assignRow [simp]: "unlabelled (assignRow t1 t2 b) = unlabelled b"
  by (simp add: assignRow_def unlabelled_def)

lemma length_withRows [simp]: "length (withRows blocks) = length blocks"
  by (simp add: withRows_def)

lemma length_withCols [simp]: "length (withCols bs) = length bs"
  by (simp add: withCols_def)

lemma row_withRows: "i < length blocks \<Longrightarrow> row (withRows blocks ! i) \<in> {0, 1, 2}"
  unfolding withRows_def using row_assignRow by simp

lemma three_passes:
  assumes "\<forall>i < length bs. row (bs ! i) \<in> {0, 1, 2}"
  shows "assignColumns 2 (assignColumns 1 (assignColumns 0 bs)) = withCols bs"
proof (rule nth_equalityI)
  show "length (assignColumns 2 (assignColumns 1 (assignColumns 0 bs))) = length (withCols bs)"
    by simp
next
  fix i assume "i < length (assignColumns 2 (assignColumns 1 (assignColumns 0 bs)))"
  then have i: "i < length bs" by simp
  then show "assignColumns 2 (assignColumns 1 (assignColumns 0 bs)) ! i = withCols bs ! i"
    using three_passes_nth[OF i] assms by (simp add: withCols_def)
qed

lemma assignToGrid_eq:
  assumes "7 \<le> length blocks"
  shows "assignToGrid blocks = Inr (sort_key gridKey (withCols (withRows blocks)))"
proof -
  have "\<forall>i < length (withRows blocks). row (withRows blocks ! i) \<in> {0, 1, 2}"
    using row_withRows by simp
  from three_passes[OF this] show ?thesis
    using assms
    by (simp add: assignToGrid_def Let_def std_sort_compare withRows_def gridKey_def[abs_def])
qed

lemma colPos_less:
  assumes "i < length bs"
  shows "colPos bs i < length (filter (\<lambda>b. row b = row (bs ! i)) bs)"
proof -
  have "i \<in> set (sortedRowBlocks (row (bs ! i)) bs)"
    using assms by (simp add: set_sortedRowBlocks)
  then show ?thesis
    unfolding colPos_def using index_of_less length_sortedRowBlocks by metis
qed

lemma colPos_inj:
  assumes "i < length bs" "j < length bs" "row (bs ! i) = row (bs ! j)" "colPos bs i = colPos bs j"
  shows "i = j"
proof -
  let ?ps = "sortedRowBlocks (row (bs ! i)) bs"
  have "i \<in> set ?ps" "j \<in> set ?ps" using assms by (simp_all add: set_sortedRowBlocks)
  moreover have "index_of ?ps i = index_of ?ps j" using assms(3,4) by (simp add: colPos_def)
  ultimately show ?thesis by (rule index_of_inj)
qed

lemma gridKey_withCols:
  "map gridKey (withCols bs) = map (\<lambda>i. (row (bs ! i), int (colPos bs i))) [0..<length bs]"
  by (simp add: withCols_def gridKey_def)

lemma distinct_gridKey_withCols: "distinct (map gridKey (withCols bs))"
proof -
  have "inj_on (\<lambda>i. (row (bs ! i), int (colPos bs i))) (set [0..<length bs])"
    by (rule inj_onI) (use colPos_inj in auto)
  then show ?thesis unfolding gridKey_withCols by (simp add: distinct_map)
qed

lemma withCols_member:
  assumes "b \<in> set (withCols bs)"
  shows "\<exists>i < length bs. b = (bs ! i)\<lparr>col := int (colPos bs i)\<rparr>"
  using assms by (auto simp: withCols_def)

lemma unlabelled_withCols: "map unlabelled (withCols bs) = map unlabelled bs"
  by (rule nth_equalityI) (simp_all add: withCols_def unlabelled_def)

lemma unlabelled_withRows: "map unlabelled (withRows blocks) = map unlabelled blocks"
  by (simp add: withRows_def)

lemma sorted_wrt_compare:
  assumes "distinct (map gridKey bs)"
  shows "sorted_wrt compareColorBlocks (sort_key gridKey bs)"
proof -
  let ?g = "sort_key gridKey bs"
  have "mset (map gridKey ?g) = mset (map gridKey bs)" by simp
  then have "distinct (map gridKey ?g)" using assms by (metis mset_eq_imp_distinct_iff)
  moreover have "sorted (map gridKey ?g)" by (rule sorted_sort_key)
  ultimately have "sorted_wrt (<) (map gridKey ?g)" by (simp add: strict_sorted_iff)
  then show ?thesis
    by (simp add: sorted_wrt_map compareColorBlocks_key gridKey_def)
qed

subsection \<open>How many blocks fall into each row\<close>

lemma row_partition:
  assumes "\<forall>b \<in> set bs. row b \<in> {0, 1, 2}"
  shows "length (filter (\<lambda>b. row b = 0) bs) + length (filter (\<lambda>b. row b = 1) bs)
    + length (filter (\<lambda>b. row b = 2) bs) = length bs"
  using assms by (induction bs) auto

lemma row_size_bound:
  assumes "\<forall>b \<in> set (withCols bs). col b < 3"
  shows "length (filter (\<lambda>b. row b = r) bs) \<le> 3"
proof (rule ccontr)
  assume "\<not> length (filter (\<lambda>b. row b = r) bs) \<le> 3"
  then have len: "3 < length (sortedRowBlocks r bs)" by (simp add: length_sortedRowBlocks)
  define i where "i = sortedRowBlocks r bs ! 3"
  have "i \<in> set (sortedRowBlocks r bs)" unfolding i_def using len by simp
  then have i: "i < length bs" "row (bs ! i) = r" by (simp_all add: set_sortedRowBlocks)
  have "index_of (sortedRowBlocks r bs) (sortedRowBlocks r bs ! 3) = 3"
    using distinct_sortedRowBlocks len by (rule index_of_nth)
  then have "colPos bs i = 3"
    unfolding colPos_def i(2) by (simp add: i_def)
  then have "col (withCols bs ! i) = 3" using i(1) by (simp add: withCols_def)
  moreover have "withCols bs ! i \<in> set (withCols bs)" using i(1) by simp
  ultimately show False using assms by fastforce
qed

lemma sorted_gridPositions: "sorted gridPositions \<and> distinct gridPositions"
  by (simp add: gridPositions_def less_eq_prod_def)

lemma band_count:
  "length (filter (\<lambda>b. bandOf blocks b = r) blocks)
    = length (filter (\<lambda>b. row b = r) (withRows blocks))"
  by (simp add: withRows_def bandOf_def filter_map comp_def)

lemma threePerBand_rows:
  assumes "threePerBand blocks" "r \<in> {0, 1, 2}"
  shows "length (filter (\<lambda>b. row b = r) (withRows blocks)) = 3"
  using assms by (auto simp: threePerBand_def band_count)

lemma cols_in_range_only_if:
  assumes "length blocks = 9" "\<forall>b \<in> set (withCols (withRows blocks)). col b < 3"
  shows "threePerBand blocks"
proof -
  let ?bs = "withRows blocks"
  have all: "\<forall>b \<in> set ?bs. row b \<in> {0, 1, 2}"
    using row_assignRow by (simp add: withRows_def)
  have bound: "length (filter (\<lambda>b. row b = r) ?bs) \<le> 3" for r
    using assms(2) by (rule row_size_bound)
  have "length (filter (\<lambda>b. row b = 0) ?bs) = 3 \<and> length (filter (\<lambda>b. row b = 1) ?bs) = 3
      \<and> length (filter (\<lambda>b. row b = 2) ?bs) = 3"
    using row_partition[OF all] bound[of 0] bound[of 1] bound[of 2] assms(1) by simp
  then show ?thesis by (simp add: threePerBand_def band_count)
qed

lemma keys_are_gridPositions:
  assumes "length blocks = 9" "threePerBand blocks"
  shows "map gridKey (sort_key gridKey (withCols (withRows blocks))) = gridPositions"
proof -
  let ?bs = "withRows blocks"
  let ?ks = "map gridKey (sort_key gridKey (withCols ?bs))"
  have m: "mset ?ks = mset (map gridKey (withCols ?bs))" by simp
  have d0: "distinct (map gridKey (withCols ?bs))" by (rule distinct_gridKey_withCols)
  then have d: "distinct ?ks" using m by (metis mset_eq_imp_distinct_iff)
  have s: "sorted ?ks" by (rule sorted_sort_key)
  have sub: "set ?ks \<subseteq> set gridPositions"
  proof
    fix k assume "k \<in> set ?ks"
    then have "k \<in> set (map gridKey (withCols ?bs))" using m by (metis mset_eq_setD)
    then obtain i where i: "i < length ?bs" "k = (row (?bs ! i), int (colPos ?bs i))"
      unfolding gridKey_withCols by auto
    have r: "row (?bs ! i) \<in> {0, 1, 2}" using i(1) row_withRows by simp
    have "colPos ?bs i < length (filter (\<lambda>b. row b = row (?bs ! i)) ?bs)"
      using i(1) by (rule colPos_less)
    then have "colPos ?bs i < 3" using threePerBand_rows[OF assms(2) r] by simp
    then have "int (colPos ?bs i) \<in> {0, 1, 2}" by auto
    then show "k \<in> set gridPositions" using r i(2) by (auto simp: gridPositions_def)
  qed
  have "length ?ks = 9" using assms(1) by simp
  then have "card (set ?ks) = 9" using distinct_card[OF d] by simp
  moreover have "card (set gridPositions) = 9"
    using sorted_gridPositions by (simp add: distinct_card gridPositions_def)
  ultimately have "set ?ks = set gridPositions"
    using sub by (intro card_subset_eq) simp_all
  then show ?thesis
    using s d sorted_gridPositions by (intro sorted_distinct_set_unique) simp_all
qed

text \<open>
  Claim C3, as the code has it. For every list of exactly nine regions, grid assignment
  returns the nine regions, changed in \<^verbatim>\<open>row\<close> and \<^verbatim>\<open>col\<close> only, each with a row in 0..2 and
  a column in 0..8, no two with the same (row, col) pair, sorted by row and then column.
  All columns lie in 0..2 exactly when each of the three row bands, as the two \<^verbatim>\<open>float\<close>
  thresholds of lines 201-202 cut them, holds three regions; then the (row, col) pairs of
  the returned list are (0,0), (0,1), ..., (2,2) in this order.
\<close>

theorem assignToGrid_nine:
  assumes "length blocks = 9"
  shows "\<exists>grid. assignToGrid blocks = Inr grid
    \<and> length grid = 9
    \<and> mset (map unlabelled grid) = mset (map unlabelled blocks)
    \<and> (\<forall>b \<in> set grid. row b \<in> {0, 1, 2} \<and> 0 \<le> col b \<and> col b < 9)
    \<and> distinct (map gridKey grid)
    \<and> sorted_wrt compareColorBlocks grid
    \<and> ((\<forall>b \<in> set grid. col b \<in> {0, 1, 2}) \<longleftrightarrow> threePerBand blocks)
    \<and> (threePerBand blocks \<longrightarrow> map gridKey grid = gridPositions)"
proof -
  let ?bs = "withRows blocks"
  let ?g = "sort_key gridKey (withCols ?bs)"
  have eq: "assignToGrid blocks = Inr ?g" using assms by (intro assignToGrid_eq) simp
  have len: "length ?g = 9" using assms by simp
  have perm: "mset (map unlabelled ?g) = mset (map unlabelled blocks)"
  proof -
    have "mset (map unlabelled ?g) = mset (map unlabelled (withCols ?bs))" by simp
    then show ?thesis by (simp only: unlabelled_withCols unlabelled_withRows)
  qed
  have range: "\<forall>b \<in> set ?g. row b \<in> {0, 1, 2} \<and> 0 \<le> col b \<and> col b < 9"
  proof
    fix b assume "b \<in> set ?g"
    then have "b \<in> set (withCols ?bs)" by simp
    then obtain i where i: "i < length ?bs" "b = (?bs ! i)\<lparr>col := int (colPos ?bs i)\<rparr>"
      using withCols_member by blast
    have "colPos ?bs i < length (filter (\<lambda>b. row b = row (?bs ! i)) ?bs)"
      using i(1) by (rule colPos_less)
    also have "\<dots> \<le> length ?bs" by (rule length_filter_le)
    finally have "colPos ?bs i < 9" using assms by simp
    moreover have "row (?bs ! i) \<in> {0, 1, 2}" using i(1) row_withRows by simp
    ultimately show "row b \<in> {0, 1, 2} \<and> 0 \<le> col b \<and> col b < 9" using i(2) by simp
  qed
  have dist: "distinct (map gridKey ?g)"
  proof -
    have "mset (map gridKey ?g) = mset (map gridKey (withCols ?bs))" by simp
    then show ?thesis using distinct_gridKey_withCols by (metis mset_eq_imp_distinct_iff)
  qed
  have srt: "sorted_wrt compareColorBlocks ?g"
    using distinct_gridKey_withCols by (rule sorted_wrt_compare)
  have keys: "map gridKey ?g = gridPositions" if "threePerBand blocks"
    using assms that by (rule keys_are_gridPositions)
  have iff: "(\<forall>b \<in> set ?g. col b \<in> {0, 1, 2}) \<longleftrightarrow> threePerBand blocks"
  proof
    assume "\<forall>b \<in> set ?g. col b \<in> {0, 1, 2}"
    then have "\<forall>b \<in> set (withCols ?bs). col b < 3" by auto
    with assms show "threePerBand blocks" by (rule cols_in_range_only_if)
  next
    assume sp: "threePerBand blocks"
    show "\<forall>b \<in> set ?g. col b \<in> {0, 1, 2}"
    proof
      fix b assume "b \<in> set ?g"
      then have "gridKey b \<in> set (map gridKey ?g)" by simp
      then have "gridKey b \<in> set gridPositions" using keys[OF sp] by simp
      then show "col b \<in> {0, 1, 2}" by (auto simp: gridPositions_def gridKey_def)
    qed
  qed
  show ?thesis using eq len perm range dist srt iff keys by blast
qed

text \<open>
  Witness for C3: a slightly tilted face, given in no particular order.
\<close>

theorem assignToGrid_nine_witness:
  "length tiltedFace = 9 \<and> threePerBand tiltedFace
   \<and> (\<exists>grid. assignToGrid tiltedFace = Inr grid \<and> map gridKey grid = gridPositions
        \<and> map colorName grid =
            [''Red'', ''Yellow'', ''Green'', ''Blue'', ''White'', ''Pink'', ''Green'', ''Red'',
             ''Blue''])"
proof -
  have len: "length tiltedFace = 9" by (simp add: tiltedFace_def)
  have split: "threePerBand tiltedFace" by code_simp
  have names: "map colorName (projr (assignToGrid tiltedFace)) =
      [''Red'', ''Yellow'', ''Green'', ''Blue'', ''White'', ''Pink'', ''Green'', ''Red'', ''Blue'']"
    by code_simp
  from assignToGrid_nine[OF len] obtain grid where
    "assignToGrid tiltedFace = Inr grid" "map gridKey grid = gridPositions"
    using split by blast
  then show ?thesis using len names split by simp
qed

text \<open>
  Counterexample to C3 as stated: nine regions of which four share the top Y level. The
  first threshold falls on that level, no region gets row 0, and the columns run up to 3
  and up to 4.
\<close>

theorem doubled_detection_columns:
  "length doubledFace = 9 \<and> \<not> isl (assignToGrid doubledFace)
   \<and> map gridKey (projr (assignToGrid doubledFace)) =
       [(1, 0), (1, 1), (1, 2), (1, 3), (2, 0), (2, 1), (2, 2), (2, 3), (2, 4)]"
  by code_simp

subsection \<open>Independence of the input order\<close>

lemma colPos_xRank:
  assumes "distinct (map (\<lambda>b. (row b, pt_x (center b))) bs)"
    and "\<forall>b \<in> set bs. isFinite (pt_x (center b))" and "i < length bs"
  shows "colPos bs i = xRank bs (bs ! i)"
proof -
  let ?r = "row (bs ! i)"
  let ?px = "\<lambda>j. pt_x (center (bs ! j))"
  let ?kx = "\<lambda>j. val (?px j)"
  let ?ps = "sortedRowBlocks ?r bs"
  let ?m = "index_of ?ps i"
  have fin: "isFinite (?px j)" if "j < length bs" for j using that assms(2) by simp
  have srt: "?ps = sort_key ?kx (rowBlocks ?r bs)"
    unfolding sortedRowBlocks_def
    by (rule std_sort_fp) (simp add: rowBlocks_def fin)
  have mem: "i \<in> set ?ps" using assms(3) by (simp add: set_sortedRowBlocks)
  have m: "?m < length ?ps" "?ps ! ?m = i"
    using mem by (simp_all add: index_of_less nth_index_of)
  have inj: "inj_on ?kx (set ?ps)"
  proof (rule inj_onI)
    fix j k assume jk: "j \<in> set ?ps" "k \<in> set ?ps" "?kx j = ?kx k"
    then have lt: "j < length bs" "k < length bs" and rw: "row (bs ! j) = row (bs ! k)"
      by (simp_all add: set_sortedRowBlocks)
    have "?px j = ?px k" using jk(3) fin[OF lt(1)] fin[OF lt(2)] by (rule val_inj[rotated 2])
    then have "map (\<lambda>b. (row b, pt_x (center b))) bs ! j = map (\<lambda>b. (row b, pt_x (center b))) bs ! k"
      "j < length (map (\<lambda>b. (row b, pt_x (center b))) bs)"
      "k < length (map (\<lambda>b. (row b, pt_x (center b))) bs)"
      using lt rw by simp_all
    then show "j = k"
      using assms(1) nth_eq_iff_index_eq by blast
  qed
  have "sorted (map ?kx ?ps)" unfolding srt by (rule sorted_sort_key)
  moreover have "distinct (map ?kx ?ps)"
    using inj distinct_sortedRowBlocks by (simp add: distinct_map)
  ultimately have "sorted_wrt (<) (map ?kx ?ps)" by (simp add: strict_sorted_iff)
  then have "length (filter (\<lambda>z. z < map ?kx ?ps ! ?m) (map ?kx ?ps)) = ?m"
    using m(1) by (intro count_smaller_strict_sorted) simp_all
  then have "?m = length (filter (\<lambda>j. ?kx j < ?kx i) ?ps)"
    using m by (simp add: filter_map comp_def)
  also have "\<dots> = length (filter (\<lambda>j. ?kx j < ?kx i) (rowBlocks ?r bs))"
    by (rule length_filter_mset_cong) (simp add: srt)
  also have "\<dots> = length (filter (\<lambda>j. fp_less (?px j) (?px i)) (rowBlocks ?r bs))"
    by (rule arg_cong[where f = length], rule filter_cong)
      (simp_all add: rowBlocks_def fp_less_finite fin assms(3))
  also have "\<dots> = length (filter (\<lambda>b'. row b' = ?r \<and> fp_less (pt_x (center b')) (?px i))
      (map (\<lambda>j. bs ! j) [0..<length bs]))"
    by (simp add: rowBlocks_def filter_map comp_def conj_commute)
  finally show ?thesis by (simp add: colPos_def xRank_def map_nth)
qed

lemma withCols_xRank:
  assumes "distinct (map (\<lambda>b. (row b, pt_x (center b))) bs)"
    and "\<forall>b \<in> set bs. isFinite (pt_x (center b))"
  shows "withCols bs = map (\<lambda>b. b\<lparr>col := int (xRank bs b)\<rparr>) bs"
  by (rule nth_equalityI) (simp_all add: withCols_def colPos_xRank[OF assms])

lemma tieFree_withRows:
  "tieFree blocks = distinct (map (\<lambda>b. (row b, pt_x (center b))) (withRows blocks))"
  by (simp add: tieFree_def withRows_def bandOf_def comp_def)

lemma yCoords_mset_cong:
  assumes "mset blocks' = mset blocks" "\<forall>b \<in> set blocks. finiteCenter b"
  shows "yCoords blocks' = yCoords blocks"
proof -
  have "set blocks' = set blocks" using assms(1) by (rule mset_eq_setD)
  then have fin': "\<forall>b \<in> set blocks'. finiteCenter b" using assms(2) by simp
  have "mset (map (\<lambda>b. val (pt_y (center b))) blocks') = mset (map (\<lambda>b. val (pt_y (center b))) blocks)"
    using assms(1) by (metis mset_map)
  then have "sort (map (\<lambda>b. val (pt_y (center b))) blocks') = sort (map (\<lambda>b. val (pt_y (center b))) blocks)"
    by (rule sort_mset_cong)
  then show ?thesis by (simp add: yCoords_finite[OF assms(2)] yCoords_finite[OF fin'])
qed

lemma xRank_mset_cong: "mset bs' = mset bs \<Longrightarrow> xRank bs' b = xRank bs b"
  unfolding xRank_def by (rule length_filter_mset_cong)

lemma withRows_mset_cong:
  assumes "mset blocks' = mset blocks" "\<forall>b \<in> set blocks. finiteCenter b"
  shows "mset (withRows blocks') = mset (withRows blocks)"
  unfolding withRows_def yCoords_mset_cong[OF assms] using assms(1) by (metis mset_map)

lemma labelled_mset_cong:
  assumes "mset blocks' = mset blocks" "\<forall>b \<in> set blocks. finiteCenter b" "tieFree blocks"
  shows "sort_key gridKey (withCols (withRows blocks'))
    = sort_key gridKey (withCols (withRows blocks))"
proof -
  let ?bs = "withRows blocks" and ?bs' = "withRows blocks'"
  have m: "mset ?bs' = mset ?bs" using assms(1,2) by (rule withRows_mset_cong)
  have d: "distinct (map (\<lambda>b. (row b, pt_x (center b))) ?bs)"
    using assms(3) by (simp add: tieFree_withRows)
  have f: "\<forall>b \<in> set ?bs. isFinite (pt_x (center b))"
    using assms(2) by (simp add: withRows_def finiteCenter_def)
  have "set ?bs' = set ?bs" using m by (rule mset_eq_setD)
  then have f': "\<forall>b \<in> set ?bs'. isFinite (pt_x (center b))" using f by simp
  have "mset (map (\<lambda>b. (row b, pt_x (center b))) ?bs') = mset (map (\<lambda>b. (row b, pt_x (center b))) ?bs)"
    using m by (metis mset_map)
  then have d': "distinct (map (\<lambda>b. (row b, pt_x (center b))) ?bs')"
    using d by (metis mset_eq_imp_distinct_iff)
  have "withCols ?bs' = map (\<lambda>b. b\<lparr>col := int (xRank ?bs b)\<rparr>) ?bs'"
    unfolding withCols_xRank[OF d' f'] using xRank_mset_cong[OF m] by simp
  then have "mset (withCols ?bs') = mset (withCols ?bs)"
    unfolding withCols_xRank[OF d f] using m by (metis mset_map)
  then show ?thesis
    using distinct_gridKey_withCols by (rule sort_key_unique)
qed

text \<open>
  Claim C5, as the code has it. For every list of exactly nine regions with finite centroid
  coordinates in which no two regions lie in the same row band with the same centroid X,
  and every permutation of that list, grid assignment returns the same sorted grid for
  both. The row bands are those the \<^verbatim>\<open>float\<close> thresholds of lines 201-202 give.
\<close>

theorem assignToGrid_order_invariant:
  assumes "length blocks = 9" "mset blocks' = mset blocks"
    and "\<forall>b \<in> set blocks. finiteCenter b" "tieFree blocks"
  shows "\<exists>grid. assignToGrid blocks = Inr grid \<and> assignToGrid blocks' = Inr grid"
proof -
  have "length blocks' = 9" using assms(1,2) by (metis size_mset)
  then have "assignToGrid blocks' = Inr (sort_key gridKey (withCols (withRows blocks')))"
    by (intro assignToGrid_eq) simp
  moreover have "assignToGrid blocks = Inr (sort_key gridKey (withCols (withRows blocks)))"
    using assms(1) by (intro assignToGrid_eq) simp
  ultimately show ?thesis using labelled_mset_cong[OF assms(2,3,4)] by simp
qed

text \<open>
  Witness for C5: the tilted face and its reversal.
\<close>

theorem assignToGrid_order_invariant_witness:
  "length tiltedFace = 9 \<and> mset (rev tiltedFace) = mset tiltedFace
   \<and> list_all finiteCenter tiltedFace \<and> tieFree tiltedFace
   \<and> (\<exists>grid. assignToGrid tiltedFace = Inr grid \<and> assignToGrid (rev tiltedFace) = Inr grid)"
proof -
  have len: "length tiltedFace = 9" by (simp add: tiltedFace_def)
  have m: "mset (rev tiltedFace) = mset tiltedFace" by simp
  have fin: "list_all finiteCenter tiltedFace"
    by (simp add: tiltedFace_def detected_def finiteCenter_def)
  then have fin': "\<forall>b \<in> set tiltedFace. finiteCenter b" by (simp add: list_all_iff)
  have tf: "tieFree tiltedFace" by code_simp
  show ?thesis using assignToGrid_order_invariant[OF len m fin' tf] len fin tf by simp
qed

text \<open>
  Counterexample to C5 as stated: two regions of the top row band have the same centroid X.
  The sort by X cannot tell them apart, so the one that comes first in the input gets the
  smaller column: swapping them in the input swaps the regions at positions (0,0) and
  (0,1) of the result. (Any comparison sort gives different results on the two orders: it
  sees the same comparisons and moves the same positions.)
\<close>

theorem tie_breaks_order_invariance:
  "length tieA = 9 \<and> mset tieB = mset tieA
   \<and> \<not> isl (assignToGrid tieA) \<and> \<not> isl (assignToGrid tieB)
   \<and> map gridKey (projr (assignToGrid tieA)) = gridPositions
   \<and> map gridKey (projr (assignToGrid tieB)) = gridPositions
   \<and> map colorName (projr (assignToGrid tieA)) =
       [''Red'', ''Blue'', ''Green'', ''Blue'', ''White'', ''Pink'', ''Red'', ''Green'', ''Blue'']
   \<and> map colorName (projr (assignToGrid tieB)) =
       [''Blue'', ''Red'', ''Green'', ''Blue'', ''White'', ''Pink'', ''Red'', ''Green'', ''Blue'']"
proof -
  have "mset tieB = mset tieA" by (simp add: tieA_def tieB_def)
  moreover have "length tieA = 9 \<and> \<not> isl (assignToGrid tieA) \<and> \<not> isl (assignToGrid tieB)
   \<and> map gridKey (projr (assignToGrid tieA)) = gridPositions
   \<and> map gridKey (projr (assignToGrid tieB)) = gridPositions
   \<and> map colorName (projr (assignToGrid tieA)) =
       [''Red'', ''Blue'', ''Green'', ''Blue'', ''White'', ''Pink'', ''Red'', ''Green'', ''Blue'']
   \<and> map colorName (projr (assignToGrid tieB)) =
       [''Blue'', ''Red'', ''Green'', ''Blue'', ''White'', ''Pink'', ''Red'', ''Green'', ''Blue'']"
    by code_simp
  ultimately show ?thesis by simp
qed

text \<open>
  The coordinates have to be finite: NaN compares false with everything, so where it ends
  up in the sorted Y values depends on the input order, and the thresholds with it (C++
  gives \<^verbatim>\<open>std::sort\<close> no defined result on such a range at all). Here no two regions share
  a centroid X, and the list and its reversal get different grids.
\<close>

lemma nan_breaks_order_invariance:
  "length nanFace = 9 \<and> mset (rev nanFace) = mset nanFace \<and> tieFree nanFace
   \<and> map gridKey (projr (assignToGrid nanFace)) =
       [(0, 0), (0, 1), (1, 0), (1, 1), (1, 2), (2, 0), (2, 1), (2, 2), (2, 3)]
   \<and> map gridKey (projr (assignToGrid (rev nanFace))) = gridPositions"
proof -
  have "length nanFace = 9 \<and> tieFree nanFace
   \<and> map gridKey (projr (assignToGrid nanFace)) =
       [(0, 0), (0, 1), (1, 0), (1, 1), (1, 2), (2, 0), (2, 1), (2, 2), (2, 3)]
   \<and> map gridKey (projr (assignToGrid (rev nanFace))) = gridPositions"
    by code_simp
  then show ?thesis by simp
qed

subsection \<open>Perfect lattices\<close>






section \<open>A face with a region count other than nine\<close>

lemma contourLoop_uninit:
  "\<forall>b \<in> set acc. row b = fst u \<and> col b = snd u
    \<Longrightarrow> \<forall>b \<in> set (contourLoop u c ks acc). row b = fst u \<and> col b = snd u"
  by (auto simp: contourLoop_append makeBlock_def)

lemma colorLoop_uninit:
  "\<forall>b \<in> set acc. row b = fst u \<and> col b = snd u
    \<Longrightarrow> \<forall>b \<in> set (colorLoop u fc cs acc). row b = fst u \<and> col b = snd u"
proof (induction cs arbitrary: acc)
  case Nil
  then show ?case by simp
next
  case (Cons c cs)
  have "\<forall>b \<in> set (contourLoop u c (fc c) acc). row b = fst u \<and> col b = snd u"
    using Cons.prems by (rule contourLoop_uninit)
  then show ?case using Cons.IH by simp
qed

lemma foldl_placeBlock_outside:
  "\<forall>b \<in> set blocks. \<not> (row b \<ge> 0 \<and> row b < 3 \<and> col b \<ge> 0 \<and> col b < 3)
    \<Longrightarrow> foldl placeBlock m blocks = m"
  by (induction blocks arbitrary: m) (auto simp: placeBlock_def)

text \<open>
  What the code does guarantee when the count is not nine: the matrix is blank provided the
  values found in the uninitialised \<^verbatim>\<open>row\<close> and \<^verbatim>\<open>col\<close> do not happen to name a cell.
\<close>

lemma mismatch_blank_if_uninit_outside:
  assumes "analyzeCubeFace u fc = Inr blocks" "length blocks \<noteq> 9"
    and "\<not> (fst u \<ge> 0 \<and> fst u < 3 \<and> snd u \<ge> 0 \<and> snd u < 3)"
  shows "createColorMatrix blocks = blankMatrix"
proof -
  define bs where "bs = colorLoop u fc colorTable []"
  have a: "(if length bs = 9 then assignToGrid bs else Inr bs) = Inr blocks"
    using assms(1) by (auto simp: analyzeCubeFace_def bs_def Let_def split: if_splits)
  have "length bs \<noteq> 9"
  proof
    assume n: "length bs = 9"
    then have "assignToGrid bs = Inr blocks" using a by simp
    moreover have "assignToGrid bs = Inr (sort_key gridKey (withCols (withRows bs)))"
      using n by (intro assignToGrid_eq) simp
    ultimately have "length blocks = 9" using n by auto
    then show False using assms(2) by simp
  qed
  then have "blocks = bs" using a by simp
  moreover have "\<forall>b \<in> set bs. row b = fst u \<and> col b = snd u"
    unfolding bs_def by (rule colorLoop_uninit) simp
  ultimately have "\<forall>b \<in> set blocks. \<not> (row b \<ge> 0 \<and> row b < 3 \<and> col b \<ge> 0 \<and> col b < 3)"
    using assms(3) by simp
  then show ?thesis
    by (simp add: createColorMatrix_def blankMatrix_def foldl_placeBlock_outside)
qed

text \<open>
  Claim C1 at a face with eight qualifying regions, when the uninitialised \<^verbatim>\<open>row\<close> and
  \<^verbatim>\<open>col\<close> of the blocks hold 0. The claim wants a fully blank matrix. Grid assignment is
  skipped, the eight blocks are returned with row 0 and column 0, and \<^verbatim>\<open>createColorMatrix\<close>
  finds them inside the grid: the matrix has the code R at cell (0, 0).
\<close>

theorem eight_regions_matrix:
  "length (projr (analyzeCubeFace (0, 0) eightStickers)) = 8
   \<and> faceMatrix (0, 0) eightStickers = Inr [''R  '', ''   '', ''   '']"
  by code_simp

section \<open>Reordering for the net\<close>

lemma all_faces_loaded_net:
  "netInput id [Some f, Some b, Some l, Some r, Some u, Some d] = Some [u, l, f, r, b, d]"
  by (simp add: netInput_def reorderedMatrices_def order_def)

text \<open>
  Claim C7 at a run in which the first image (Front) fails to load and the other five load.
  The claim wants net position 0 to hold Up, 1 Left, 3 Right, 4 Back. The code indexes the
  list of loaded matrices with the positions of the full capture order, so the list it
  hands to the renderer is Down, Right, Back, Up, Left. (Faces: Back P, Left G, Right B,
  Up W, Down Y.)
\<close>

theorem skipped_front_shifts_net:
  "netInput id
     [None, Some (uniformFace (CHR ''P'')), Some (uniformFace (CHR ''G'')),
      Some (uniformFace (CHR ''B'')), Some (uniformFace (CHR ''W'')),
      Some (uniformFace (CHR ''Y''))]
   = Some [uniformFace (CHR ''Y''), uniformFace (CHR ''B''), uniformFace (CHR ''P''),
           uniformFace (CHR ''W''), uniformFace (CHR ''G'')]"
  by (simp add: netInput_def reorderedMatrices_def order_def)

section \<open>Rendering a face\<close>

lemma blockColorOf_total:
  "blockColorOf mp ch = Inr (case mp ch of None \<Rightarrow> (128, 128, 128) | Some s \<Rightarrow> s)"
  by (simp add: blockColorOf_def mapAt_def split: option.splits)

lemma matrixAt_in_range:
  assumes "length cm = 3" "\<forall>r \<in> set cm. length r = 3" "0 \<le> r" "r < 3" "0 \<le> c" "c < 3"
  shows "matrixAt cm r c = Inr (cm ! nat r ! nat c)"
proof -
  have r: "nat r < length cm" using assms by arith
  then have "cm ! nat r \<in> set cm" by simp
  then have "length (cm ! nat r) = 3" using assms(2) by blast
  moreover have "nat c < 3" using assms by arith
  ultimately show ?thesis using r assms by (simp add: matrixAt_def)
qed

lemma drawCells_in_range:
  assumes "length cm = 3" "\<forall>r \<in> set cm. length r = 3"
    and "\<forall>rc \<in> set cells. 0 \<le> fst rc \<and> fst rc < 3 \<and> 0 \<le> snd rc \<and> snd rc < 3"
  shows "drawCells v cm mp margin cells img =
    Inr (img\<lparr>drawn := drawn img @
      concat (map (\<lambda>rc. cellDrawing v margin (fst rc) (snd rc) (cm ! nat (fst rc) ! nat (snd rc))
        (case mp (cm ! nat (fst rc) ! nat (snd rc)) of None \<Rightarrow> (128, 128, 128) | Some s \<Rightarrow> s))
        cells)\<rparr>)"
  using assms(3)
proof (induction cells arbitrary: img)
  case Nil
  then show ?case by simp
next
  case (Cons rc cells)
  have m: "matrixAt cm (fst rc) (snd rc) = Inr (cm ! nat (fst rc) ! nat (snd rc))"
    using Cons.prems assms(1,2) by (intro matrixAt_in_range) auto
  have rest: "\<forall>rc \<in> set cells. 0 \<le> fst rc \<and> fst rc < 3 \<and> 0 \<le> snd rc \<and> snd rc < 3"
    using Cons.prems by simp
  show ?case
    by (simp add: drawCell_def m blockColorOf_total Cons.IH[OF rest])
qed

lemma getColorCodeMap_dom:
  "dom getColorCodeMap = {CHR ''R'', CHR ''Y'', CHR ''G'', CHR ''B'', CHR ''W'', CHR ''P''}"
  by (auto simp: getColorCodeMap_def colorTable_def split: if_splits)

text \<open>
  Claim C8. For every 3x3 matrix of characters, every code table and every face name,
  \<^verbatim>\<open>drawStandardFace\<close> returns an image: no read is out of range and \<^verbatim>\<open>at\<close> never throws.
  The canvas is created with every pixel set to (240, 240, 240), so no pixel is left
  undefined, and the nine filled squares are drawn in row-major order, each in the table's
  colour for the cell's character, or in the grey (128, 128, 128) when the character is not
  a key of the table. The keys of the program's table are the six codes R, Y, G, B, W, P.
\<close>

theorem drawStandardFace_never_fails:
  assumes "length cm = 3" "\<forall>r \<in> set cm. length r = 3"
  shows "\<exists>img. fst (drawStandardFace v cm mp nm) = Inr img
    \<and> background img = (240, 240, 240)
    \<and> cols img = blockSize v * 3 + 20
    \<and> rows img = blockSize v * 3 + 20 + (if nm = [] then 0 else 25)
    \<and> filter isFill (drawn img) =
        map (\<lambda>rc. RectangleOp
              (Rect (10 + snd rc * blockSize v) (10 + fst rc * blockSize v)
                 (blockSize v) (blockSize v))
              (case mp (cm ! nat (fst rc) ! nat (snd rc)) of
                 None \<Rightarrow> (128, 128, 128) | Some s \<Rightarrow> s)
              FILLED) cellOrder
    \<and> dom getColorCodeMap = {CHR ''R'', CHR ''Y'', CHR ''G'', CHR ''B'', CHR ''W'', CHR ''P''}"
proof -
  have cells: "\<forall>rc \<in> set cellOrder. 0 \<le> fst rc \<and> fst rc < 3 \<and> 0 \<le> snd rc \<and> snd rc < 3"
    by (simp add: cellOrder_def)
  show ?thesis
    unfolding drawStandardFace_def Let_def drawCells_in_range[OF assms cells]
    by (simp add: getColorCodeMap_dom cellOrder_def cellDrawing_def FILLED_def Let_def)
qed

text \<open>
  Witness for C8: the all-blank matrix, rendered with the program's table and a caption.
\<close>

theorem drawStandardFace_never_fails_witness:
  "length blankMatrix = 3 \<and> length (blankMatrix ! 0) = 3 \<and> length (blankMatrix ! 1) = 3
   \<and> length (blankMatrix ! 2) = 3
   \<and> (\<exists>img. fst (drawStandardFace visualizer blankMatrix getColorCodeMap ''Front'') = Inr img
      \<and> background img = (240, 240, 240) \<and> cols img = 200 \<and> rows img = 225
      \<and> filter isFill (drawn img) =
          [RectangleOp (Rect 10 10 60 60) (128, 128, 128) FILLED,
           RectangleOp (Rect 70 10 60 60) (128, 128, 128) FILLED,
           RectangleOp (Rect 130 10 60 60) (128, 128, 128) FILLED,
           RectangleOp (Rect 10 70 60 60) (128, 128, 128) FILLED,
           RectangleOp (Rect 70 70 60 60) (128, 128, 128) FILLED,
           RectangleOp (Rect 130 70 60 60) (128, 128, 128) FILLED,
           RectangleOp (Rect 10 130 60 60) (128, 128, 128) FILLED,
           RectangleOp (Rect 70 130 60 60) (128, 128, 128) FILLED,
           RectangleOp (Rect 130 130 60 60) (128, 128, 128) FILLED])"
proof -
  have shape: "length blankMatrix = 3" "\<forall>r \<in> set blankMatrix. length r = 3"
    by (simp_all add: blankMatrix_def)
  have blank: "getColorCodeMap (CHR '' '') = None"
    by (simp add: getColorCodeMap_def colorTable_def)
  have cell: "blankMatrix ! i ! j = CHR '' ''" if "i < 3" "j < 3" for i j
    using that by (simp add: blankMatrix_def)
  show ?thesis
    using drawStandardFace_never_fails[OF shape, of visualizer getColorCodeMap "''Front''"]
    by (auto simp: cellOrder_def visualizer_def blank cell blankMatrix_def)
qed

end
